theory Spec2Isabelle
  imports Complex_Main
begin

section \<open>The placement-and-interaction controller of VRPassthroughDancer\<close>

text \<open>
  A shallow embedding of the class \<^verbatim>\<open>VRPassthroughDancer\<close> (the later of the two
  near-duplicate source files, the one with audio, placard and repositioning).
  The object's fields become a record, every method a function from the record to the
  updated record. JavaScript numbers are idealised as real numbers: rounding of
  IEEE doubles is not part of the model. A method that dereferences a field which is
  still \<^verbatim>\<open>null\<close> throws a TypeError; the model returns the state as mutated up to the
  throw, tagged \<open>TypeError\<close>.

  Left out are the writes that no decision of the controller reads: the reticle pulse
  (\<^verbatim>\<open>reticle.scale\<close>), the idle spin (\<^verbatim>\<open>dancer.rotation.y\<close>), the placard yaw, the
  animation mixer, the debug logging and the final \<^verbatim>\<open>renderer.render\<close> call.
\<close>

subsection \<open>Data\<close>

type_synonym vec3 = "real \<times> real \<times> real"
type_synonym quat = "real \<times> real \<times> real \<times> real"

text \<open>A THREE.Object3D as far as the controller uses it.\<close>

record object3d =
  position :: vec3
  quaternion :: quat
  visible :: bool

text \<open>The placard mesh: an object with \<^verbatim>\<open>material.opacity\<close>.\<close>

record placard_mesh = object3d +
  opacity :: real

text \<open>
  THREE.PositionalAudio. \<open>isPlaying\<close>, \<open>loop\<close> and \<open>hasBuffer\<close> are the library's
  fields; \<open>playCalls\<close> is a ghost counter of the calls of \<^verbatim>\<open>play()\<close> the controller
  has made.
\<close>

record audio =
  isPlaying :: bool
  loop :: bool
  hasBuffer :: bool
  playCalls :: nat

datatype session_mode = ImmersiveAR | ImmersiveVR

text \<open>
  An XRSession handle; \<open>listening\<close> says whether the controller has registered its
  \<^verbatim>\<open>end\<close> and \<^verbatim>\<open>select\<close> listeners on it.
\<close>

record xr_session =
  sessionId :: nat
  listening :: bool

text \<open>The three DOM properties the controller writes.\<close>

record dom =
  startButtonDisabled :: bool
  statusText :: string
  infoDisplay :: string

text \<open>
  The fields of the class. \<open>repositionCalls\<close> is a ghost counter of the calls of
  \<^verbatim>\<open>enableRepositioning\<close>.
\<close>

record controller =
  xrSession :: "xr_session option"
  hitTestSource :: "nat option"
  hitTestSourceRequested :: bool
  reticle :: object3d
  platform :: object3d
  dancer :: "object3d option"
  isPlaced :: bool
  preferredMode :: session_mode
  xButtonPressed :: bool
  positionalAudio :: "audio option"
  audioLoaded :: bool
  placard :: "placard_mesh option"
  placardFadeStartTime :: "real option"
  ui :: dom
  repositionCalls :: nat

text \<open>What a method call leaves behind: it returned, or it threw a TypeError.\<close>

datatype outcome = Done controller | TypeError controller

fun state_of :: "outcome \<Rightarrow> controller" where
  "state_of (Done c) = c"
| "state_of (TypeError c) = c"

fun completed :: "outcome \<Rightarrow> bool" where
  "completed (Done c) = True"
| "completed (TypeError c) = False"

subsection \<open>What the platform hands to a frame\<close>

text \<open>
  One XRInputSource as \<^verbatim>\<open>render\<close> reads it: \<open>gamepad\<close> is the \<^verbatim>\<open>pressed\<close> flag of each
  entry of \<^verbatim>\<open>gamepad.buttons\<close> (\<open>None\<close> without a gamepad), \<open>controllerPose\<close> says
  whether \<^verbatim>\<open>frame.getPose\<close> returned a pose, and \<open>intersections\<close> is the length of the
  list that the raycaster returns for this source's ray against the platform's children.
\<close>

record input_source =
  gamepad :: "bool list option"
  targetRayMode :: string
  targetRaySpace :: bool
  controllerPose :: bool
  intersections :: nat

text \<open>
  One XRFrame: whether \<^verbatim>\<open>getViewerPose\<close> returned a pose, the session's input sources,
  and the hit-test results (each with the pose \<^verbatim>\<open>hit.getPose\<close> returns, or \<open>None\<close>).
\<close>

record xr_frame =
  viewerPose :: bool
  inputSources :: "input_source list"
  hitTestResults :: "(vec3 \<times> quat) option list"

text \<open>
  One call of \<^verbatim>\<open>render\<close>: the reading of \<^verbatim>\<open>performance.now()\<close> in the fade block, the
  later reading in \<^verbatim>\<open>showPlacard\<close>, and the frame (\<open>None\<close> outside a session).
\<close>

record tick =
  perfNow :: real
  perfNowShow :: real
  xrFrame :: "xr_frame option"

subsection \<open>Placement\<close>

definition defaultPosition :: vec3 where
  "defaultPosition = (0, 3 / 10, - 1)"

definition showDancer :: "controller \<Rightarrow> controller" where
  "showDancer c =
     (case dancer c of
        None \<Rightarrow> c
      | Some d \<Rightarrow> c\<lparr>dancer := Some (d\<lparr>visible := True\<rparr>)\<rparr>)"

definition placeAtDefaultPosition :: "controller \<Rightarrow> controller" where
  "placeAtDefaultPosition c =
     showDancer (c\<lparr>platform := (platform c)\<lparr>position := defaultPosition, visible := True\<rparr>\<rparr>)"

definition play :: "audio \<Rightarrow> audio" where
  "play a = a\<lparr>isPlaying := True, playCalls := Suc (playCalls a)\<rparr>"

definition playAudio :: "controller \<Rightarrow> controller" where
  "playAudio c =
     (case positionalAudio c of
        None \<Rightarrow> c
      | Some a \<Rightarrow>
          if audioLoaded c \<and> \<not> isPlaying a then c\<lparr>positionalAudio := Some (play a)\<rparr>
          else c)"

definition onSelect :: "controller \<Rightarrow> outcome" where
  "onSelect c =
     (if visible (reticle c) then
        (let c1 = c\<lparr>platform := (platform c)\<lparr>position := position (reticle c), visible := True\<rparr>\<rparr>
         in case dancer c1 of
              None \<Rightarrow> TypeError c1
            | Some d \<Rightarrow>
                Done (playAudio
                  (c1\<lparr>dancer := Some (d\<lparr>visible := True\<rparr>),
                      isPlaced := True,
                      reticle := (reticle c1)\<lparr>visible := False\<rparr>\<rparr>)))
      else if \<not> isPlaced c then Done (placeAtDefaultPosition c)
      else Done c)"

subsection \<open>Placard\<close>

definition showPlacard :: "real \<Rightarrow> controller \<Rightarrow> controller" where
  "showPlacard now c =
     (case placard c of
        None \<Rightarrow> c
      | Some p \<Rightarrow>
          if \<not> visible p
          then c\<lparr>placard := Some (p\<lparr>visible := True\<rparr>), placardFadeStartTime := Some now\<rparr>
          else c)"

definition hidePlacard :: "controller \<Rightarrow> controller" where
  "hidePlacard c =
     (case placard c of
        None \<Rightarrow> c
      | Some p \<Rightarrow>
          if visible p
          then c\<lparr>placard := Some (p\<lparr>visible := False, opacity := 0\<rparr>),
                 placardFadeStartTime := None\<rparr>
          else c)"

definition enableRepositioning :: "controller \<Rightarrow> controller" where
  "enableRepositioning c =
     (let c1 = c\<lparr>isPlaced := False, repositionCalls := Suc (repositionCalls c)\<rparr>
      in case placard c1 of
           None \<Rightarrow> c1
         | Some p \<Rightarrow> if visible p then hidePlacard c1 else c1)"

definition fadeInDuration :: real where
  "fadeInDuration = 1500"

definition easeOut :: "real \<Rightarrow> real" where
  "easeOut elapsed =
     (let progress = min (elapsed / fadeInDuration) 1
      in progress * (2 - progress))"

definition fadePlacard :: "real \<Rightarrow> controller \<Rightarrow> controller" where
  "fadePlacard now c =
     (case placard c of
        None \<Rightarrow> c
      | Some p \<Rightarrow>
          if visible p then
            (case placardFadeStartTime c of
               None \<Rightarrow> c
             | Some start \<Rightarrow>
                 (let elapsed = now - start;
                      progress = min (elapsed / fadeInDuration) 1;
                      c1 = c\<lparr>placard := Some (p\<lparr>opacity := easeOut elapsed\<rparr>)\<rparr>
                  in if progress \<ge> 1 then c1\<lparr>placardFadeStartTime := None\<rparr> else c1))
          else c)"

subsection \<open>Hit-test feed\<close>

text \<open>
  \<^verbatim>\<open>requestHitTestSource\<close> is asynchronous. Up to its first \<^verbatim>\<open>await\<close> it only sets the flag;
  the platform settles the request later, with a source or with a rejection.
\<close>

definition requestHitTestSource :: "controller \<Rightarrow> controller" where
  "requestHitTestSource c =
     (if hitTestSourceRequested c then c else c\<lparr>hitTestSourceRequested := True\<rparr>)"

fun hitTestSettled :: "nat option \<Rightarrow> controller \<Rightarrow> controller" where
  "hitTestSettled (Some src) c = c\<lparr>hitTestSource := Some src\<rparr>"
| "hitTestSettled None c = placeAtDefaultPosition c"

subsection \<open>The frame loop\<close>

definition buttonPressed :: "bool list \<Rightarrow> nat \<Rightarrow> bool" where
  "buttonPressed bs i = (i < length bs \<and> bs ! i)"

fun xButtonCurrentlyPressed :: "input_source list \<Rightarrow> bool" where
  "xButtonCurrentlyPressed [] = False"
| "xButtonCurrentlyPressed (s # ss) =
     (case gamepad s of
        None \<Rightarrow> xButtonCurrentlyPressed ss
      | Some bs \<Rightarrow>
          if buttonPressed bs 4 then True
          else if buttonPressed bs 5 then True
          else xButtonCurrentlyPressed ss)"

fun pointingAtPlatform :: "input_source list \<Rightarrow> bool" where
  "pointingAtPlatform [] = False"
| "pointingAtPlatform (s # ss) =
     (if targetRayMode s = ''tracked-pointer'' \<and> targetRaySpace s \<and> controllerPose s
         \<and> intersections s > 0
      then True
      else pointingAtPlatform ss)"

definition repositionStage :: "xr_frame \<Rightarrow> controller \<Rightarrow> controller" where
  "repositionStage f c =
     (let pressed = xButtonCurrentlyPressed (inputSources f);
          c1 = (if pressed \<and> \<not> xButtonPressed c then enableRepositioning c else c)
      in c1\<lparr>xButtonPressed := pressed\<rparr>)"

definition pointingStage :: "real \<Rightarrow> xr_frame \<Rightarrow> controller \<Rightarrow> outcome" where
  "pointingStage now f c =
     (if isPlaced c \<and> visible (platform c) then
        (case placard c of
           None \<Rightarrow> TypeError c
         | Some p \<Rightarrow>
             if pointingAtPlatform (inputSources f)
             then Done (if \<not> visible p then showPlacard now c else c)
             else Done (if visible p then hidePlacard c else c))
      else Done c)"

definition hitTestStage :: "xr_frame \<Rightarrow> controller \<Rightarrow> controller" where
  "hitTestStage f c =
     (if \<not> isPlaced c then
        (let c1 = (if hitTestSource c = None \<and> \<not> hitTestSourceRequested c
                   then requestHitTestSource c else c)
         in if hitTestSource c1 \<noteq> None \<and> viewerPose f then
              (case hitTestResults f of
                 [] \<Rightarrow> c1\<lparr>reticle := (reticle c1)\<lparr>visible := False\<rparr>\<rparr>
               | hit # rest \<Rightarrow>
                   (case hit of
                      None \<Rightarrow> c1
                    | Some (p, q) \<Rightarrow>
                        c1\<lparr>reticle := (reticle c1)\<lparr>visible := True, position := p,
                                                      quaternion := q\<rparr>\<rparr>))
            else c1)
      else c\<lparr>reticle := (reticle c)\<lparr>visible := False\<rparr>\<rparr>)"

definition renderXR :: "real \<Rightarrow> xr_frame \<Rightarrow> controller \<Rightarrow> outcome" where
  "renderXR now f c =
     (case pointingStage now f (repositionStage f c) of
        TypeError e \<Rightarrow> TypeError e
      | Done c1 \<Rightarrow> Done (hitTestStage f c1))"

definition renderDesktop :: "controller \<Rightarrow> outcome" where
  "renderDesktop c =
     (if \<not> visible (platform c) then
        (let c1 = c\<lparr>platform := (platform c)\<lparr>position := (0, 0, - 1), visible := True\<rparr>\<rparr>
         in case dancer c1 of
              None \<Rightarrow> TypeError c1
            | Some d \<Rightarrow> Done (c1\<lparr>dancer := Some (d\<lparr>visible := True\<rparr>)\<rparr>))
      else Done c)"

definition render :: "tick \<Rightarrow> controller \<Rightarrow> outcome" where
  "render t c =
     (let c1 = fadePlacard (perfNow t) c
      in case xrFrame t of
           None \<Rightarrow> renderDesktop c1
         | Some f \<Rightarrow>
             if xrSession c1 \<noteq> None then renderXR (perfNowShow t) f c1
             else renderDesktop c1)"

subsection \<open>Session lifecycle\<close>

definition onSessionEnded :: "controller \<Rightarrow> controller" where
  "onSessionEnded c =
     (let c1 = c\<lparr>xrSession := None, hitTestSource := None,
                 hitTestSourceRequested := False, isPlaced := False\<rparr>;
          c2 = (case placard c1 of
                  None \<Rightarrow> c1
                | Some p \<Rightarrow> c1\<lparr>placard := Some (p\<lparr>visible := False, opacity := 0\<rparr>),
                                placardFadeStartTime := None\<rparr>)
      in c2\<lparr>ui := (ui c2)\<lparr>startButtonDisabled := False, infoDisplay := ''block'',
                statusText := ''Session ended. Click Enter VR to restart.''\<rparr>\<rparr>)"

text \<open>The JavaScript \<^verbatim>\<open>String.prototype.includes\<close>.\<close>

fun startsWith :: "string \<Rightarrow> string \<Rightarrow> bool" where
  "startsWith s [] = True"
| "startsWith [] (p # ps) = False"
| "startsWith (x # s) (p # ps) = (x = p \<and> startsWith s ps)"

fun includes_str :: "string \<Rightarrow> string \<Rightarrow> bool" where
  "includes_str [] pat = (pat = [])"
| "includes_str (x # s) pat = (startsWith (x # s) pat \<or> includes_str s pat)"

text \<open>
  What the platform answers to one call of \<^verbatim>\<open>startXRSession\<close>: the rejection message of
  \<^verbatim>\<open>xrSession.end()\<close> if it rejects (consulted only when a session is open), the
  rejection message or the new session of \<^verbatim>\<open>requestSession\<close>, and the message of the
  first error thrown while the layer, the render state and the reference space are set
  up, if any.
\<close>

record start_response =
  endResult :: "string option"
  requestResult :: "string + nat"
  setupResult :: "string option"

text \<open>
  The \<^verbatim>\<open>catch\<close> block. The second component is the delay of the timer that re-invokes
  \<^verbatim>\<open>startXRSession\<close>, when one is set.
\<close>

definition catchStartError :: "string \<Rightarrow> controller \<Rightarrow> controller \<times> nat option" where
  "catchStartError msg c =
     (let c1 = c\<lparr>ui := (ui c)\<lparr>statusText := ''Error starting VR: '' @ msg,
                               startButtonDisabled := False\<rparr>\<rparr>
      in if preferredMode c1 = ImmersiveAR \<and> \<not> includes_str msg ''already an active''
         then (c1\<lparr>preferredMode := ImmersiveVR\<rparr>, Some 1000)
         else (c1, None))"

text \<open>
  Ending the open session: the platform dispatches \<^verbatim>\<open>end\<close> to the registered listener,
  then the method clears the field.
\<close>

definition endExisting :: "xr_session \<Rightarrow> controller \<Rightarrow> controller" where
  "endExisting s c =
     (let c1 = (if listening s then onSessionEnded c else c)
      in c1\<lparr>xrSession := None\<rparr>)"

definition openSession :: "start_response \<Rightarrow> controller \<Rightarrow> controller \<times> nat option" where
  "openSession r c =
     (let sessionMode = preferredMode c
      in case requestResult r of
           Inl msg \<Rightarrow> catchStartError msg c
         | Inr sid \<Rightarrow>
             (let c1 = c\<lparr>xrSession := Some \<lparr>sessionId = sid, listening = False\<rparr>\<rparr>
              in case setupResult r of
                   Some msg \<Rightarrow> catchStartError msg c1
                 | None \<Rightarrow>
                     (let c2 = c1\<lparr>xrSession := Some \<lparr>sessionId = sid, listening = True\<rparr>\<rparr>;
                          c3 = placeAtDefaultPosition c2
                      in (c3\<lparr>ui := (ui c3)\<lparr>statusText :=
                            (if sessionMode = ImmersiveAR
                             then ''Passthrough active! Point and click to place. Press X to reposition.''
                             else ''VR Mode - Point and click to place. Press X to reposition.'')\<rparr>\<rparr>,
                          None))))"

definition startXRSession :: "start_response \<Rightarrow> controller \<Rightarrow> controller \<times> nat option" where
  "startXRSession r c =
     (let c0 = c\<lparr>ui := (ui c)\<lparr>startButtonDisabled := True,
                               statusText := ''Starting VR session...''\<rparr>\<rparr>
      in case xrSession c0 of
           None \<Rightarrow> openSession r c0
         | Some s \<Rightarrow>
             (case endResult r of
                Some msg \<Rightarrow> catchStartError msg c0
              | None \<Rightarrow> openSession r (endExisting s c0)))"

subsection \<open>Asset callbacks and capability probe\<close>

text \<open>
  The success callback of the audio loader in \<^verbatim>\<open>setupSpatialAudio\<close>. Without an audio
  object its first statement throws, before the flag is set.
\<close>

definition onAudioLoaded :: "controller \<Rightarrow> controller" where
  "onAudioLoaded c =
     (case positionalAudio c of
        None \<Rightarrow> c
      | Some a \<Rightarrow> c\<lparr>positionalAudio := Some (a\<lparr>hasBuffer := True, loop := True\<rparr>),
                     audioLoaded := True\<rparr>)"

text \<open>
  The library's end-of-source handler of THREE.Audio: a source that does not loop stops
  when its buffer has been played, a looping source never ends.
\<close>

definition onAudioEnded :: "controller \<Rightarrow> controller" where
  "onAudioEnded c =
     (case positionalAudio c of
        None \<Rightarrow> c
      | Some a \<Rightarrow> if loop a then c else c\<lparr>positionalAudio := Some (a\<lparr>isPlaying := False\<rparr>)\<rparr>)"

text \<open>The success callback of the texture loader in \<^verbatim>\<open>loadPlacard\<close>.\<close>

definition onPlacardLoaded :: "controller \<Rightarrow> controller" where
  "onPlacardLoaded c =
     c\<lparr>placard := Some \<lparr>position = (0, 4 / 100, 8 / 100), quaternion = (0, 0, 0, 1),
                          visible = False, opacity = 0\<rparr>\<rparr>"

text \<open>
  \<^verbatim>\<open>checkXRSupport\<close>, given whether \<^verbatim>\<open>navigator.xr\<close> exists and what the two
  \<^verbatim>\<open>isSessionSupported\<close> queries answer (\<open>None\<close> when one of them rejects).
\<close>

definition checkXRSupport :: "bool \<Rightarrow> (bool \<times> bool) option \<Rightarrow> controller \<Rightarrow> controller" where
  "checkXRSupport hasXR answer c =
     (if \<not> hasXR then
        c\<lparr>ui := (ui c)\<lparr>statusText := ''WebXR not supported'', startButtonDisabled := True\<rparr>\<rparr>
      else
        (case answer of
           None \<Rightarrow> c\<lparr>ui := (ui c)\<lparr>statusText := ''Error checking XR support'',
                                     startButtonDisabled := True\<rparr>\<rparr>
         | Some (arSupported, vrSupported) \<Rightarrow>
             if arSupported then
               c\<lparr>ui := (ui c)\<lparr>statusText := ''Ready! MR/Passthrough mode available.'',
                               startButtonDisabled := False\<rparr>,
                 preferredMode := ImmersiveAR\<rparr>
             else if vrSupported then
               c\<lparr>ui := (ui c)\<lparr>statusText := ''Ready! VR mode (no passthrough).'',
                               startButtonDisabled := False\<rparr>,
                 preferredMode := ImmersiveVR\<rparr>
             else
               c\<lparr>ui := (ui c)\<lparr>statusText := ''XR not supported on this device'',
                               startButtonDisabled := True\<rparr>\<rparr>))"

subsection \<open>The controller after construction\<close>

text \<open>
  The state when \<^verbatim>\<open>init\<close> reaches \<^verbatim>\<open>animate\<close>: the constructor's values, the reticle,
  the platform and the audio object created, the dancer (the model or the placeholder)
  loaded and hidden. The placard and the audio buffer arrive later through their
  callbacks. The page's markup is not part of the sources, so the DOM properties are a
  parameter; so is the quaternion that the library computes for the reticle from
  \<^verbatim>\<open>rotation.x = -Math.PI / 2\<close>.
\<close>

definition hiddenObject :: object3d where
  "hiddenObject = \<lparr>position = (0, 0, 0), quaternion = (0, 0, 0, 1), visible = False\<rparr>"

definition initial :: "dom \<Rightarrow> quat \<Rightarrow> controller" where
  "initial page flat =
     \<lparr>xrSession = None,
      hitTestSource = None,
      hitTestSourceRequested = False,
      reticle = hiddenObject\<lparr>quaternion := flat\<rparr>,
      platform = hiddenObject,
      dancer = Some (hiddenObject\<lparr>position := (0, 25 / 1000, 0)\<rparr>),
      isPlaced = False,
      preferredMode = ImmersiveVR,
      xButtonPressed = False,
      positionalAudio = Some \<lparr>isPlaying = False, loop = False, hasBuffer = False,
                                playCalls = 0\<rparr>,
      audioLoaded = False,
      placard = None,
      placardFadeStartTime = None,
      ui = page,
      repositionCalls = 0\<rparr>"

subsection \<open>Events\<close>

text \<open>
  Everything that runs code of the controller after construction. \<open>Start\<close> is one
  invocation of \<^verbatim>\<open>startXRSession\<close>, by the button or by the retry timer;
  \<open>HitTestSettled\<close> is the platform settling a hit-test request, with a source or
  with a rejection; \<open>AudioEnded\<close> is the audio source running out. A call that throws
  leaves the state it had reached. The events are not tied to the states in which the
  platform can raise them, so the sequences of events include all that can occur: what
  holds after every sequence holds after those.
\<close>

datatype event =
    Render tick
  | Select
  | SessionEnd
  | Start start_response
  | HitTestSettled "nat option"
  | AudioLoaded
  | AudioEnded
  | PlacardLoaded
  | XRSupportChecked bool "(bool \<times> bool) option"

fun step :: "event \<Rightarrow> controller \<Rightarrow> controller" where
  "step (Render t) c = state_of (render t c)"
| "step Select c = state_of (onSelect c)"
| "step SessionEnd c = onSessionEnded c"
| "step (Start r) c = fst (startXRSession r c)"
| "step (HitTestSettled h) c = hitTestSettled h c"
| "step AudioLoaded c = onAudioLoaded c"
| "step AudioEnded c = onAudioEnded c"
| "step PlacardLoaded c = onPlacardLoaded c"
| "step (XRSupportChecked hasXR answer) c = checkXRSupport hasXR answer c"

fun run :: "event list \<Rightarrow> controller \<Rightarrow> controller" where
  "run [] c = c"
| "run (e # es) c = run es (step e c)"

text \<open>
  The timer-driven invocations of \<^verbatim>\<open>startXRSession\<close> that follow one invocation: each
  element of the list is the platform's answer to the next invocation in the chain.
\<close>

fun autoRetries :: "start_response list \<Rightarrow> controller \<Rightarrow> nat" where
  "autoRetries [] c = 0"
| "autoRetries (r # rs) c =
     (case startXRSession r c of
        (c1, None) \<Rightarrow> 0
      | (c1, Some delay) \<Rightarrow> Suc (autoRetries rs c1))"

text \<open>The error, if any, that the \<^verbatim>\<open>try\<close> block of \<^verbatim>\<open>startXRSession\<close> runs into.\<close>

definition startError :: "start_response \<Rightarrow> controller \<Rightarrow> string option" where
  "startError r c =
     (if xrSession c \<noteq> None \<and> endResult r \<noteq> None then endResult r
      else case requestResult r of
             Inl msg \<Rightarrow> Some msg
           | Inr sid \<Rightarrow> setupResult r)"

text \<open>Readings of the audio object that are total on the controller.\<close>

definition playing :: "controller \<Rightarrow> bool" where
  "playing c = (case positionalAudio c of None \<Rightarrow> False | Some a \<Rightarrow> isPlaying a)"

definition looping :: "controller \<Rightarrow> bool" where
  "looping c = (case positionalAudio c of None \<Rightarrow> False | Some a \<Rightarrow> loop a)"

definition plays :: "controller \<Rightarrow> nat" where
  "plays c = (case positionalAudio c of None \<Rightarrow> 0 | Some a \<Rightarrow> playCalls a)"

definition placardOpacity :: "controller \<Rightarrow> real" where
  "placardOpacity c = (case placard c of None \<Rightarrow> 0 | Some p \<Rightarrow> opacity p)"

definition placardVisible :: "controller \<Rightarrow> bool" where
  "placardVisible c = (case placard c of None \<Rightarrow> False | Some p \<Rightarrow> visible p)"

text \<open>The released-to-pressed edge that \<^verbatim>\<open>render\<close> tests before it calls \<^verbatim>\<open>enableRepositioning\<close>.\<close>

definition repositionEdge :: "xr_frame \<Rightarrow> controller \<Rightarrow> bool" where
  "repositionEdge f c = (xButtonCurrentlyPressed (inputSources f) \<and> \<not> xButtonPressed c)"

text \<open>Whether a call of \<^verbatim>\<open>render\<close> takes the branch \<^verbatim>\<open>frame && this.xrSession\<close>.\<close>

definition xrBranch :: "tick \<Rightarrow> controller \<Rightarrow> bool" where
  "xrBranch t c = (xrFrame t \<noteq> None \<and> xrSession c \<noteq> None)"

text \<open>
  A call of \<^verbatim>\<open>render\<close> with a frame in which a reposition button is pressed, and one with
  a frame in which none is.
\<close>

definition heldFrame :: "tick \<Rightarrow> bool" where
  "heldFrame t =
     (case xrFrame t of None \<Rightarrow> False | Some f \<Rightarrow> xButtonCurrentlyPressed (inputSources f))"

definition releasedFrame :: "tick \<Rightarrow> bool" where
  "releasedFrame t =
     (case xrFrame t of None \<Rightarrow> False | Some f \<Rightarrow> \<not> xButtonCurrentlyPressed (inputSources f))"

text \<open>
  The audio object is set to loop before the loaded flag is raised, and it is played only
  when the flag is up: whenever the clip is loaded or playing, it loops.
\<close>

definition audioInv :: "controller \<Rightarrow> bool" where
  "audioInv c = (audioLoaded c \<or> playing c \<longrightarrow> looping c)"

text \<open>
  How many calls of \<^verbatim>\<open>play()\<close> there can be in total: those made, and one more while
  nothing is playing.
\<close>

definition playBudget :: "controller \<Rightarrow> nat" where
  "playBudget c = plays c + (if playing c then 0 else 1)"


section \<open>A sample session\<close>

text \<open>
  Concrete inputs on which the theorems below are evaluated: a page, answers of the
  platform, frames with one tracked controller, and the states of a session in which the
  object is tracked, placed, pointed at and repositioned.
\<close>

definition samplePage :: dom where
  "samplePage = \<lparr>startButtonDisabled = False, statusText = ''Ready to enter VR!'',
                  infoDisplay = ''block''\<rparr>"

definition sampleFlat :: quat where
  "sampleFlat = (- (7071 / 10000), 0, 0, 7071 / 10000)"

definition startGranted :: start_response where
  "startGranted = \<lparr>endResult = None, requestResult = Inr 1, setupResult = None\<rparr>"

definition startRejected :: "string \<Rightarrow> start_response" where
  "startRejected msg = \<lparr>endResult = None, requestResult = Inl msg, setupResult = None\<rparr>"

text \<open>
  A frame at clock reading \<open>now\<close> with one tracked controller: \<open>x\<close> is the state of its
  button 4, \<open>n\<close> the number of intersections of its ray with the platform, \<open>hits\<close>
  the hit-test results.
\<close>

definition sampleSource :: "bool \<Rightarrow> nat \<Rightarrow> input_source" where
  "sampleSource x n =
     \<lparr>gamepad = Some [False, False, False, False, x, False],
      targetRayMode = ''tracked-pointer'', targetRaySpace = True, controllerPose = True,
      intersections = n\<rparr>"

definition sampleFrame :: "bool \<Rightarrow> nat \<Rightarrow> (vec3 \<times> quat) option list \<Rightarrow> xr_frame" where
  "sampleFrame x n hits =
     \<lparr>viewerPose = True, inputSources = [sampleSource x n], hitTestResults = hits\<rparr>"

definition sampleTick :: "real \<Rightarrow> bool \<Rightarrow> nat \<Rightarrow> (vec3 \<times> quat) option list \<Rightarrow> tick" where
  "sampleTick now x n hits =
     \<lparr>perfNow = now, perfNowShow = now, xrFrame = Some (sampleFrame x n hits)\<rparr>"

definition sampleHit :: "vec3 \<times> quat" where
  "sampleHit = ((1, 0, - 2), (0, 1, 0, 0))"

definition sampleStarted :: controller where
  "sampleStarted =
     run [PlacardLoaded, AudioLoaded, XRSupportChecked True (Some (True, True)),
          Start startGranted, Render (sampleTick 0 False 0 [])]
       (initial samplePage sampleFlat)"

definition sampleTracking :: controller where
  "sampleTracking =
     run [HitTestSettled (Some 7), Render (sampleTick 16 False 0 [Some sampleHit])]
       sampleStarted"

definition samplePlaced :: controller where
  "samplePlaced = run [Select, Render (sampleTick 32 False 0 [Some sampleHit])] sampleTracking"

definition samplePointing :: controller where
  "samplePointing = step (Render (sampleTick 100 False 1 [])) samplePlaced"

definition sampleRepositioned :: controller where
  "sampleRepositioned = step (Render (sampleTick 850 True 1 [])) samplePointing"

definition sampleOverlay :: dom where
  "sampleOverlay = \<lparr>startButtonDisabled = True,
      statusText = ''Passthrough active! Point and click to place. Press X to reposition.'',
      infoDisplay = ''block''\<rparr>"

definition sampleReady :: controller where
  "sampleReady =
     run [PlacardLoaded, AudioLoaded, XRSupportChecked True (Some (True, True))]
       (initial samplePage sampleFlat)"

text \<open>The events that lead to \<open>samplePlaced\<close>, and a session whose audio clip has not arrived.\<close>

definition sampleEvents :: "event list" where
  "sampleEvents =
     [PlacardLoaded, AudioLoaded, XRSupportChecked True (Some (True, True)),
      Start startGranted, Render (sampleTick 0 False 0 []),
      HitTestSettled (Some 7), Render (sampleTick 16 False 0 [Some sampleHit]),
      Select, Render (sampleTick 32 False 0 [Some sampleHit])]"

definition sampleSilent :: controller where
  "sampleSilent =
     run [Start startGranted, Render (sampleTick 0 False 0 []),
          HitTestSettled (Some 7), Render (sampleTick 16 False 0 [Some sampleHit])]
       (initial samplePage sampleFlat)"


section \<open>Which fields each method leaves alone\<close>

lemma showDancer_keeps [simp]:
  "xrSession (showDancer c) = xrSession c"
  "hitTestSource (showDancer c) = hitTestSource c"
  "hitTestSourceRequested (showDancer c) = hitTestSourceRequested c"
  "reticle (showDancer c) = reticle c"
  "platform (showDancer c) = platform c"
  "isPlaced (showDancer c) = isPlaced c"
  "preferredMode (showDancer c) = preferredMode c"
  "xButtonPressed (showDancer c) = xButtonPressed c"
  "positionalAudio (showDancer c) = positionalAudio c"
  "audioLoaded (showDancer c) = audioLoaded c"
  "placard (showDancer c) = placard c"
  "placardFadeStartTime (showDancer c) = placardFadeStartTime c"
  "ui (showDancer c) = ui c"
  "repositionCalls (showDancer c) = repositionCalls c"
  by (simp_all add: showDancer_def split: option.splits)

lemma placeAtDefaultPosition_keeps [simp]:
  "xrSession (placeAtDefaultPosition c) = xrSession c"
  "hitTestSource (placeAtDefaultPosition c) = hitTestSource c"
  "hitTestSourceRequested (placeAtDefaultPosition c) = hitTestSourceRequested c"
  "reticle (placeAtDefaultPosition c) = reticle c"
  "isPlaced (placeAtDefaultPosition c) = isPlaced c"
  "preferredMode (placeAtDefaultPosition c) = preferredMode c"
  "xButtonPressed (placeAtDefaultPosition c) = xButtonPressed c"
  "positionalAudio (placeAtDefaultPosition c) = positionalAudio c"
  "audioLoaded (placeAtDefaultPosition c) = audioLoaded c"
  "placard (placeAtDefaultPosition c) = placard c"
  "placardFadeStartTime (placeAtDefaultPosition c) = placardFadeStartTime c"
  "ui (placeAtDefaultPosition c) = ui c"
  "repositionCalls (placeAtDefaultPosition c) = repositionCalls c"
  by (simp_all add: placeAtDefaultPosition_def)

lemma playAudio_keeps [simp]:
  "xrSession (playAudio c) = xrSession c"
  "hitTestSource (playAudio c) = hitTestSource c"
  "hitTestSourceRequested (playAudio c) = hitTestSourceRequested c"
  "reticle (playAudio c) = reticle c"
  "platform (playAudio c) = platform c"
  "dancer (playAudio c) = dancer c"
  "isPlaced (playAudio c) = isPlaced c"
  "preferredMode (playAudio c) = preferredMode c"
  "xButtonPressed (playAudio c) = xButtonPressed c"
  "audioLoaded (playAudio c) = audioLoaded c"
  "placard (playAudio c) = placard c"
  "placardFadeStartTime (playAudio c) = placardFadeStartTime c"
  "ui (playAudio c) = ui c"
  "repositionCalls (playAudio c) = repositionCalls c"
  by (simp_all add: playAudio_def split: option.splits)

lemma showPlacard_keeps [simp]:
  "xrSession (showPlacard now c) = xrSession c"
  "hitTestSource (showPlacard now c) = hitTestSource c"
  "hitTestSourceRequested (showPlacard now c) = hitTestSourceRequested c"
  "reticle (showPlacard now c) = reticle c"
  "platform (showPlacard now c) = platform c"
  "dancer (showPlacard now c) = dancer c"
  "isPlaced (showPlacard now c) = isPlaced c"
  "preferredMode (showPlacard now c) = preferredMode c"
  "xButtonPressed (showPlacard now c) = xButtonPressed c"
  "positionalAudio (showPlacard now c) = positionalAudio c"
  "audioLoaded (showPlacard now c) = audioLoaded c"
  "ui (showPlacard now c) = ui c"
  "repositionCalls (showPlacard now c) = repositionCalls c"
  by (simp_all add: showPlacard_def split: option.splits)

lemma hidePlacard_keeps [simp]:
  "xrSession (hidePlacard c) = xrSession c"
  "hitTestSource (hidePlacard c) = hitTestSource c"
  "hitTestSourceRequested (hidePlacard c) = hitTestSourceRequested c"
  "reticle (hidePlacard c) = reticle c"
  "platform (hidePlacard c) = platform c"
  "dancer (hidePlacard c) = dancer c"
  "isPlaced (hidePlacard c) = isPlaced c"
  "preferredMode (hidePlacard c) = preferredMode c"
  "xButtonPressed (hidePlacard c) = xButtonPressed c"
  "positionalAudio (hidePlacard c) = positionalAudio c"
  "audioLoaded (hidePlacard c) = audioLoaded c"
  "ui (hidePlacard c) = ui c"
  "repositionCalls (hidePlacard c) = repositionCalls c"
  by (simp_all add: hidePlacard_def split: option.splits)

lemma fadePlacard_keeps [simp]:
  "xrSession (fadePlacard now c) = xrSession c"
  "hitTestSource (fadePlacard now c) = hitTestSource c"
  "hitTestSourceRequested (fadePlacard now c) = hitTestSourceRequested c"
  "reticle (fadePlacard now c) = reticle c"
  "platform (fadePlacard now c) = platform c"
  "dancer (fadePlacard now c) = dancer c"
  "isPlaced (fadePlacard now c) = isPlaced c"
  "preferredMode (fadePlacard now c) = preferredMode c"
  "xButtonPressed (fadePlacard now c) = xButtonPressed c"
  "positionalAudio (fadePlacard now c) = positionalAudio c"
  "audioLoaded (fadePlacard now c) = audioLoaded c"
  "ui (fadePlacard now c) = ui c"
  "repositionCalls (fadePlacard now c) = repositionCalls c"
  by (simp_all add: fadePlacard_def Let_def split: option.splits)

lemma enableRepositioning_keeps [simp]:
  "xrSession (enableRepositioning c) = xrSession c"
  "hitTestSource (enableRepositioning c) = hitTestSource c"
  "hitTestSourceRequested (enableRepositioning c) = hitTestSourceRequested c"
  "reticle (enableRepositioning c) = reticle c"
  "platform (enableRepositioning c) = platform c"
  "dancer (enableRepositioning c) = dancer c"
  "preferredMode (enableRepositioning c) = preferredMode c"
  "xButtonPressed (enableRepositioning c) = xButtonPressed c"
  "positionalAudio (enableRepositioning c) = positionalAudio c"
  "audioLoaded (enableRepositioning c) = audioLoaded c"
  "ui (enableRepositioning c) = ui c"
  by (simp_all add: enableRepositioning_def Let_def split: option.splits)

lemma repositionStage_keeps [simp]:
  "xrSession (repositionStage f c) = xrSession c"
  "hitTestSource (repositionStage f c) = hitTestSource c"
  "hitTestSourceRequested (repositionStage f c) = hitTestSourceRequested c"
  "reticle (repositionStage f c) = reticle c"
  "platform (repositionStage f c) = platform c"
  "dancer (repositionStage f c) = dancer c"
  "preferredMode (repositionStage f c) = preferredMode c"
  "positionalAudio (repositionStage f c) = positionalAudio c"
  "audioLoaded (repositionStage f c) = audioLoaded c"
  "ui (repositionStage f c) = ui c"
  by (simp_all add: repositionStage_def Let_def)

lemma pointingStage_keeps [simp]:
  "xrSession (state_of (pointingStage now f c)) = xrSession c"
  "hitTestSource (state_of (pointingStage now f c)) = hitTestSource c"
  "hitTestSourceRequested (state_of (pointingStage now f c)) = hitTestSourceRequested c"
  "reticle (state_of (pointingStage now f c)) = reticle c"
  "platform (state_of (pointingStage now f c)) = platform c"
  "dancer (state_of (pointingStage now f c)) = dancer c"
  "isPlaced (state_of (pointingStage now f c)) = isPlaced c"
  "preferredMode (state_of (pointingStage now f c)) = preferredMode c"
  "xButtonPressed (state_of (pointingStage now f c)) = xButtonPressed c"
  "positionalAudio (state_of (pointingStage now f c)) = positionalAudio c"
  "audioLoaded (state_of (pointingStage now f c)) = audioLoaded c"
  "ui (state_of (pointingStage now f c)) = ui c"
  "repositionCalls (state_of (pointingStage now f c)) = repositionCalls c"
  by (simp_all add: pointingStage_def split: option.splits)

lemma requestHitTestSource_keeps [simp]:
  "xrSession (requestHitTestSource c) = xrSession c"
  "hitTestSource (requestHitTestSource c) = hitTestSource c"
  "reticle (requestHitTestSource c) = reticle c"
  "platform (requestHitTestSource c) = platform c"
  "dancer (requestHitTestSource c) = dancer c"
  "isPlaced (requestHitTestSource c) = isPlaced c"
  "preferredMode (requestHitTestSource c) = preferredMode c"
  "xButtonPressed (requestHitTestSource c) = xButtonPressed c"
  "positionalAudio (requestHitTestSource c) = positionalAudio c"
  "audioLoaded (requestHitTestSource c) = audioLoaded c"
  "placard (requestHitTestSource c) = placard c"
  "placardFadeStartTime (requestHitTestSource c) = placardFadeStartTime c"
  "ui (requestHitTestSource c) = ui c"
  "repositionCalls (requestHitTestSource c) = repositionCalls c"
  by (simp_all add: requestHitTestSource_def)

lemma hitTestStage_keeps [simp]:
  "xrSession (hitTestStage f c) = xrSession c"
  "hitTestSource (hitTestStage f c) = hitTestSource c"
  "platform (hitTestStage f c) = platform c"
  "dancer (hitTestStage f c) = dancer c"
  "isPlaced (hitTestStage f c) = isPlaced c"
  "preferredMode (hitTestStage f c) = preferredMode c"
  "xButtonPressed (hitTestStage f c) = xButtonPressed c"
  "positionalAudio (hitTestStage f c) = positionalAudio c"
  "audioLoaded (hitTestStage f c) = audioLoaded c"
  "placard (hitTestStage f c) = placard c"
  "placardFadeStartTime (hitTestStage f c) = placardFadeStartTime c"
  "ui (hitTestStage f c) = ui c"
  "repositionCalls (hitTestStage f c) = repositionCalls c"
  by (simp_all add: hitTestStage_def Let_def split: option.splits list.splits)

lemma renderDesktop_keeps [simp]:
  "xrSession (state_of (renderDesktop c)) = xrSession c"
  "hitTestSource (state_of (renderDesktop c)) = hitTestSource c"
  "hitTestSourceRequested (state_of (renderDesktop c)) = hitTestSourceRequested c"
  "reticle (state_of (renderDesktop c)) = reticle c"
  "isPlaced (state_of (renderDesktop c)) = isPlaced c"
  "preferredMode (state_of (renderDesktop c)) = preferredMode c"
  "xButtonPressed (state_of (renderDesktop c)) = xButtonPressed c"
  "positionalAudio (state_of (renderDesktop c)) = positionalAudio c"
  "audioLoaded (state_of (renderDesktop c)) = audioLoaded c"
  "placard (state_of (renderDesktop c)) = placard c"
  "placardFadeStartTime (state_of (renderDesktop c)) = placardFadeStartTime c"
  "ui (state_of (renderDesktop c)) = ui c"
  "repositionCalls (state_of (renderDesktop c)) = repositionCalls c"
  by (simp_all add: renderDesktop_def Let_def split: option.splits)

lemma renderXR_state:
  "state_of (renderXR now f c) =
     (if completed (pointingStage now f (repositionStage f c))
      then hitTestStage f (state_of (pointingStage now f (repositionStage f c)))
      else state_of (pointingStage now f (repositionStage f c)))"
  by (cases "pointingStage now f (repositionStage f c)") (simp_all add: renderXR_def)

lemma renderXR_keeps [simp]:
  "xrSession (state_of (renderXR now f c)) = xrSession c"
  "hitTestSource (state_of (renderXR now f c)) = hitTestSource c"
  "platform (state_of (renderXR now f c)) = platform c"
  "dancer (state_of (renderXR now f c)) = dancer c"
  "preferredMode (state_of (renderXR now f c)) = preferredMode c"
  "positionalAudio (state_of (renderXR now f c)) = positionalAudio c"
  "audioLoaded (state_of (renderXR now f c)) = audioLoaded c"
  "ui (state_of (renderXR now f c)) = ui c"
  by (simp_all add: renderXR_state)

lemma render_keeps [simp]:
  "xrSession (state_of (render t c)) = xrSession c"
  "hitTestSource (state_of (render t c)) = hitTestSource c"
  "preferredMode (state_of (render t c)) = preferredMode c"
  "positionalAudio (state_of (render t c)) = positionalAudio c"
  "audioLoaded (state_of (render t c)) = audioLoaded c"
  "ui (state_of (render t c)) = ui c"
  by (simp_all add: render_def Let_def split: option.splits)

lemma onSelect_keeps [simp]:
  "xrSession (state_of (onSelect c)) = xrSession c"
  "hitTestSource (state_of (onSelect c)) = hitTestSource c"
  "hitTestSourceRequested (state_of (onSelect c)) = hitTestSourceRequested c"
  "preferredMode (state_of (onSelect c)) = preferredMode c"
  "xButtonPressed (state_of (onSelect c)) = xButtonPressed c"
  "audioLoaded (state_of (onSelect c)) = audioLoaded c"
  "placard (state_of (onSelect c)) = placard c"
  "placardFadeStartTime (state_of (onSelect c)) = placardFadeStartTime c"
  "ui (state_of (onSelect c)) = ui c"
  "repositionCalls (state_of (onSelect c)) = repositionCalls c"
  by (simp_all add: onSelect_def Let_def split: option.splits)

lemma onSessionEnded_keeps [simp]:
  "reticle (onSessionEnded c) = reticle c"
  "platform (onSessionEnded c) = platform c"
  "dancer (onSessionEnded c) = dancer c"
  "preferredMode (onSessionEnded c) = preferredMode c"
  "xButtonPressed (onSessionEnded c) = xButtonPressed c"
  "positionalAudio (onSessionEnded c) = positionalAudio c"
  "audioLoaded (onSessionEnded c) = audioLoaded c"
  "repositionCalls (onSessionEnded c) = repositionCalls c"
  by (simp_all add: onSessionEnded_def Let_def split: option.splits)

lemma catchStartError_keeps [simp]:
  "xrSession (fst (catchStartError msg c)) = xrSession c"
  "hitTestSource (fst (catchStartError msg c)) = hitTestSource c"
  "hitTestSourceRequested (fst (catchStartError msg c)) = hitTestSourceRequested c"
  "reticle (fst (catchStartError msg c)) = reticle c"
  "platform (fst (catchStartError msg c)) = platform c"
  "dancer (fst (catchStartError msg c)) = dancer c"
  "isPlaced (fst (catchStartError msg c)) = isPlaced c"
  "xButtonPressed (fst (catchStartError msg c)) = xButtonPressed c"
  "positionalAudio (fst (catchStartError msg c)) = positionalAudio c"
  "audioLoaded (fst (catchStartError msg c)) = audioLoaded c"
  "placard (fst (catchStartError msg c)) = placard c"
  "placardFadeStartTime (fst (catchStartError msg c)) = placardFadeStartTime c"
  "repositionCalls (fst (catchStartError msg c)) = repositionCalls c"
  by (simp_all add: catchStartError_def Let_def)

lemma endExisting_keeps [simp]:
  "reticle (endExisting s c) = reticle c"
  "platform (endExisting s c) = platform c"
  "dancer (endExisting s c) = dancer c"
  "preferredMode (endExisting s c) = preferredMode c"
  "xButtonPressed (endExisting s c) = xButtonPressed c"
  "positionalAudio (endExisting s c) = positionalAudio c"
  "audioLoaded (endExisting s c) = audioLoaded c"
  "repositionCalls (endExisting s c) = repositionCalls c"
  by (simp_all add: endExisting_def Let_def)

lemma openSession_keeps [simp]:
  "hitTestSource (fst (openSession r c)) = hitTestSource c"
  "hitTestSourceRequested (fst (openSession r c)) = hitTestSourceRequested c"
  "reticle (fst (openSession r c)) = reticle c"
  "isPlaced (fst (openSession r c)) = isPlaced c"
  "xButtonPressed (fst (openSession r c)) = xButtonPressed c"
  "positionalAudio (fst (openSession r c)) = positionalAudio c"
  "audioLoaded (fst (openSession r c)) = audioLoaded c"
  "placard (fst (openSession r c)) = placard c"
  "placardFadeStartTime (fst (openSession r c)) = placardFadeStartTime c"
  "repositionCalls (fst (openSession r c)) = repositionCalls c"
  by (simp_all add: openSession_def Let_def split: sum.splits option.splits)

lemma startXRSession_keeps [simp]:
  "reticle (fst (startXRSession r c)) = reticle c"
  "xButtonPressed (fst (startXRSession r c)) = xButtonPressed c"
  "positionalAudio (fst (startXRSession r c)) = positionalAudio c"
  "audioLoaded (fst (startXRSession r c)) = audioLoaded c"
  "repositionCalls (fst (startXRSession r c)) = repositionCalls c"
  by (simp_all add: startXRSession_def Let_def split: option.splits)

lemma hitTestSettled_keeps [simp]:
  "xrSession (hitTestSettled h c) = xrSession c"
  "hitTestSourceRequested (hitTestSettled h c) = hitTestSourceRequested c"
  "reticle (hitTestSettled h c) = reticle c"
  "isPlaced (hitTestSettled h c) = isPlaced c"
  "preferredMode (hitTestSettled h c) = preferredMode c"
  "xButtonPressed (hitTestSettled h c) = xButtonPressed c"
  "positionalAudio (hitTestSettled h c) = positionalAudio c"
  "audioLoaded (hitTestSettled h c) = audioLoaded c"
  "placard (hitTestSettled h c) = placard c"
  "placardFadeStartTime (hitTestSettled h c) = placardFadeStartTime c"
  "ui (hitTestSettled h c) = ui c"
  "repositionCalls (hitTestSettled h c) = repositionCalls c"
  by (cases h; simp)+

lemma onAudioLoaded_keeps [simp]:
  "xrSession (onAudioLoaded c) = xrSession c"
  "hitTestSource (onAudioLoaded c) = hitTestSource c"
  "hitTestSourceRequested (onAudioLoaded c) = hitTestSourceRequested c"
  "reticle (onAudioLoaded c) = reticle c"
  "platform (onAudioLoaded c) = platform c"
  "dancer (onAudioLoaded c) = dancer c"
  "isPlaced (onAudioLoaded c) = isPlaced c"
  "preferredMode (onAudioLoaded c) = preferredMode c"
  "xButtonPressed (onAudioLoaded c) = xButtonPressed c"
  "placard (onAudioLoaded c) = placard c"
  "placardFadeStartTime (onAudioLoaded c) = placardFadeStartTime c"
  "ui (onAudioLoaded c) = ui c"
  "repositionCalls (onAudioLoaded c) = repositionCalls c"
  by (simp_all add: onAudioLoaded_def split: option.splits)

lemma onAudioEnded_keeps [simp]:
  "xrSession (onAudioEnded c) = xrSession c"
  "hitTestSource (onAudioEnded c) = hitTestSource c"
  "hitTestSourceRequested (onAudioEnded c) = hitTestSourceRequested c"
  "reticle (onAudioEnded c) = reticle c"
  "platform (onAudioEnded c) = platform c"
  "dancer (onAudioEnded c) = dancer c"
  "isPlaced (onAudioEnded c) = isPlaced c"
  "preferredMode (onAudioEnded c) = preferredMode c"
  "xButtonPressed (onAudioEnded c) = xButtonPressed c"
  "audioLoaded (onAudioEnded c) = audioLoaded c"
  "placard (onAudioEnded c) = placard c"
  "placardFadeStartTime (onAudioEnded c) = placardFadeStartTime c"
  "ui (onAudioEnded c) = ui c"
  "repositionCalls (onAudioEnded c) = repositionCalls c"
  by (simp_all add: onAudioEnded_def split: option.splits)

lemma onPlacardLoaded_keeps [simp]:
  "xrSession (onPlacardLoaded c) = xrSession c"
  "hitTestSource (onPlacardLoaded c) = hitTestSource c"
  "hitTestSourceRequested (onPlacardLoaded c) = hitTestSourceRequested c"
  "reticle (onPlacardLoaded c) = reticle c"
  "platform (onPlacardLoaded c) = platform c"
  "dancer (onPlacardLoaded c) = dancer c"
  "isPlaced (onPlacardLoaded c) = isPlaced c"
  "preferredMode (onPlacardLoaded c) = preferredMode c"
  "xButtonPressed (onPlacardLoaded c) = xButtonPressed c"
  "positionalAudio (onPlacardLoaded c) = positionalAudio c"
  "audioLoaded (onPlacardLoaded c) = audioLoaded c"
  "placardFadeStartTime (onPlacardLoaded c) = placardFadeStartTime c"
  "ui (onPlacardLoaded c) = ui c"
  "repositionCalls (onPlacardLoaded c) = repositionCalls c"
  by (simp_all add: onPlacardLoaded_def)

lemma checkXRSupport_keeps [simp]:
  "xrSession (checkXRSupport hasXR answer c) = xrSession c"
  "hitTestSource (checkXRSupport hasXR answer c) = hitTestSource c"
  "hitTestSourceRequested (checkXRSupport hasXR answer c) = hitTestSourceRequested c"
  "reticle (checkXRSupport hasXR answer c) = reticle c"
  "platform (checkXRSupport hasXR answer c) = platform c"
  "dancer (checkXRSupport hasXR answer c) = dancer c"
  "isPlaced (checkXRSupport hasXR answer c) = isPlaced c"
  "xButtonPressed (checkXRSupport hasXR answer c) = xButtonPressed c"
  "positionalAudio (checkXRSupport hasXR answer c) = positionalAudio c"
  "audioLoaded (checkXRSupport hasXR answer c) = audioLoaded c"
  "placard (checkXRSupport hasXR answer c) = placard c"
  "placardFadeStartTime (checkXRSupport hasXR answer c) = placardFadeStartTime c"
  "repositionCalls (checkXRSupport hasXR answer c) = repositionCalls c"
  by (simp_all add: checkXRSupport_def split: option.splits prod.splits)

section \<open>The sample session, evaluated\<close>

lemmas sample_defs = samplePage_def sampleFlat_def startGranted_def startRejected_def
  sampleSource_def sampleFrame_def sampleTick_def sampleHit_def

lemmas method_defs = initial_def hiddenObject_def defaultPosition_def showDancer_def
  placeAtDefaultPosition_def play_def playAudio_def onSelect_def showPlacard_def hidePlacard_def
  enableRepositioning_def fadePlacard_def easeOut_def fadeInDuration_def requestHitTestSource_def
  buttonPressed_def repositionStage_def pointingStage_def hitTestStage_def renderXR_def
  renderDesktop_def render_def onSessionEnded_def catchStartError_def endExisting_def
  openSession_def startXRSession_def onAudioLoaded_def onAudioEnded_def onPlacardLoaded_def
  checkXRSupport_def Let_def

lemma sampleStarted_eq:
  "sampleStarted =
   \<lparr>xrSession = Some \<lparr>sessionId = 1, listening = True\<rparr>, hitTestSource = None,
    hitTestSourceRequested = True,
    reticle = \<lparr>position = (0, 0, 0), quaternion = sampleFlat, visible = False\<rparr>,
    platform = \<lparr>position = (0, 3 / 10, - 1), quaternion = (0, 0, 0, 1), visible = True\<rparr>,
    dancer = Some \<lparr>position = (0, 1 / 40, 0), quaternion = (0, 0, 0, 1), visible = True\<rparr>,
    isPlaced = False, preferredMode = ImmersiveAR, xButtonPressed = False,
    positionalAudio = Some \<lparr>isPlaying = False, loop = True, hasBuffer = True, playCalls = 0\<rparr>,
    audioLoaded = True,
    placard = Some \<lparr>position = (0, 1 / 25, 2 / 25), quaternion = (0, 0, 0, 1),
                      visible = False, opacity = 0\<rparr>,
    placardFadeStartTime = None,
    ui = sampleOverlay,
    repositionCalls = 0\<rparr>"
  by (simp add: sampleStarted_def sample_defs method_defs sampleOverlay_def)

lemma sampleTracking_eq:
  "sampleTracking =
   \<lparr>xrSession = Some \<lparr>sessionId = 1, listening = True\<rparr>, hitTestSource = Some 7,
    hitTestSourceRequested = True,
    reticle = \<lparr>position = (1, 0, - 2), quaternion = (0, 1, 0, 0), visible = True\<rparr>,
    platform = \<lparr>position = (0, 3 / 10, - 1), quaternion = (0, 0, 0, 1), visible = True\<rparr>,
    dancer = Some \<lparr>position = (0, 1 / 40, 0), quaternion = (0, 0, 0, 1), visible = True\<rparr>,
    isPlaced = False, preferredMode = ImmersiveAR, xButtonPressed = False,
    positionalAudio = Some \<lparr>isPlaying = False, loop = True, hasBuffer = True, playCalls = 0\<rparr>,
    audioLoaded = True,
    placard = Some \<lparr>position = (0, 1 / 25, 2 / 25), quaternion = (0, 0, 0, 1),
                      visible = False, opacity = 0\<rparr>,
    placardFadeStartTime = None,
    ui = sampleOverlay,
    repositionCalls = 0\<rparr>"
  by (simp add: sampleTracking_def sampleStarted_eq sample_defs method_defs)

lemma samplePlaced_eq:
  "samplePlaced =
   \<lparr>xrSession = Some \<lparr>sessionId = 1, listening = True\<rparr>, hitTestSource = Some 7,
    hitTestSourceRequested = True,
    reticle = \<lparr>position = (1, 0, - 2), quaternion = (0, 1, 0, 0), visible = False\<rparr>,
    platform = \<lparr>position = (1, 0, - 2), quaternion = (0, 0, 0, 1), visible = True\<rparr>,
    dancer = Some \<lparr>position = (0, 1 / 40, 0), quaternion = (0, 0, 0, 1), visible = True\<rparr>,
    isPlaced = True, preferredMode = ImmersiveAR, xButtonPressed = False,
    positionalAudio = Some \<lparr>isPlaying = True, loop = True, hasBuffer = True, playCalls = 1\<rparr>,
    audioLoaded = True,
    placard = Some \<lparr>position = (0, 1 / 25, 2 / 25), quaternion = (0, 0, 0, 1),
                      visible = False, opacity = 0\<rparr>,
    placardFadeStartTime = None,
    ui = sampleOverlay,
    repositionCalls = 0\<rparr>"
  by (simp add: samplePlaced_def sampleTracking_eq sample_defs method_defs)

lemma samplePointing_eq:
  "samplePointing =
   \<lparr>xrSession = Some \<lparr>sessionId = 1, listening = True\<rparr>, hitTestSource = Some 7,
    hitTestSourceRequested = True,
    reticle = \<lparr>position = (1, 0, - 2), quaternion = (0, 1, 0, 0), visible = False\<rparr>,
    platform = \<lparr>position = (1, 0, - 2), quaternion = (0, 0, 0, 1), visible = True\<rparr>,
    dancer = Some \<lparr>position = (0, 1 / 40, 0), quaternion = (0, 0, 0, 1), visible = True\<rparr>,
    isPlaced = True, preferredMode = ImmersiveAR, xButtonPressed = False,
    positionalAudio = Some \<lparr>isPlaying = True, loop = True, hasBuffer = True, playCalls = 1\<rparr>,
    audioLoaded = True,
    placard = Some \<lparr>position = (0, 1 / 25, 2 / 25), quaternion = (0, 0, 0, 1),
                      visible = True, opacity = 0\<rparr>,
    placardFadeStartTime = Some 100,
    ui = sampleOverlay,
    repositionCalls = 0\<rparr>"
  by (simp add: samplePointing_def samplePlaced_eq sample_defs method_defs)

lemma sampleRepositioned_eq:
  "sampleRepositioned =
   \<lparr>xrSession = Some \<lparr>sessionId = 1, listening = True\<rparr>, hitTestSource = Some 7,
    hitTestSourceRequested = True,
    reticle = \<lparr>position = (1, 0, - 2), quaternion = (0, 1, 0, 0), visible = False\<rparr>,
    platform = \<lparr>position = (1, 0, - 2), quaternion = (0, 0, 0, 1), visible = True\<rparr>,
    dancer = Some \<lparr>position = (0, 1 / 40, 0), quaternion = (0, 0, 0, 1), visible = True\<rparr>,
    isPlaced = False, preferredMode = ImmersiveAR, xButtonPressed = True,
    positionalAudio = Some \<lparr>isPlaying = True, loop = True, hasBuffer = True, playCalls = 1\<rparr>,
    audioLoaded = True,
    placard = Some \<lparr>position = (0, 1 / 25, 2 / 25), quaternion = (0, 0, 0, 1),
                      visible = False, opacity = 0\<rparr>,
    placardFadeStartTime = None,
    ui = sampleOverlay,
    repositionCalls = 1\<rparr>"
  by (simp add: sampleRepositioned_def samplePointing_eq sample_defs method_defs)

section \<open>The ease-out map\<close>

lemma easeOut_alt: "easeOut e = 1 - (1 - min (e / 1500) 1)\<^sup>2"
  by (simp add: easeOut_def fadeInDuration_def Let_def power2_eq_square algebra_simps)

lemma easeOut_mono: "e1 \<le> e2 \<Longrightarrow> easeOut e1 \<le> easeOut e2"
proof -
  assume le: "e1 \<le> e2"
  define p1 where "p1 = min (e1 / 1500) 1"
  define p2 where "p2 = min (e2 / 1500) 1"
  have "p1 \<le> p2" using le by (simp add: p1_def p2_def min_def divide_right_mono)
  moreover have "p2 \<le> 1" by (simp add: p2_def)
  ultimately have "0 \<le> 1 - p2" "1 - p2 \<le> 1 - p1" by simp_all
  then have "(1 - p2)\<^sup>2 \<le> (1 - p1)\<^sup>2" by (rule power_mono[rotated])
  then show ?thesis by (simp add: easeOut_alt p1_def p2_def)
qed

lemma easeOut_range: "0 \<le> e \<Longrightarrow> 0 \<le> easeOut e \<and> easeOut e \<le> 1"
proof -
  assume nn: "0 \<le> e"
  define p where "p = min (e / 1500) 1"
  have p: "0 \<le> p" "p \<le> 1" using nn by (simp_all add: p_def)
  have prod: "easeOut e = p * (2 - p)"
    by (simp add: easeOut_def fadeInDuration_def Let_def p_def)
  have sq: "easeOut e = 1 - (1 - p)\<^sup>2"
    by (simp add: easeOut_alt p_def)
  have "0 \<le> p * (2 - p)" using p by (intro mult_nonneg_nonneg) simp_all
  then have lower: "0 \<le> easeOut e" by (simp add: prod)
  have "0 \<le> (1 - p)\<^sup>2" by simp
  then have upper: "easeOut e \<le> 1" by (simp add: sq)
  from lower upper show ?thesis by simp
qed

lemma easeOut_full: "1500 \<le> e \<Longrightarrow> easeOut e = 1"
  by (simp add: easeOut_def fadeInDuration_def Let_def min_def)

section \<open>The placard through the stages of a frame\<close>

lemma placard_fadePlacard:
  "placardVisible (fadePlacard now c) = placardVisible c"
  "placardOpacity (fadePlacard now c) =
     (case placardFadeStartTime c of
        None \<Rightarrow> placardOpacity c
      | Some start \<Rightarrow> if placardVisible c then easeOut (now - start) else placardOpacity c)"
  "placardFadeStartTime (fadePlacard now c) =
     (case placardFadeStartTime c of
        None \<Rightarrow> None
      | Some start \<Rightarrow> if placardVisible c \<and> 1500 \<le> now - start then None else Some start)"
  by (simp_all add: fadePlacard_def placardVisible_def placardOpacity_def fadeInDuration_def
        Let_def split: option.splits)

lemma placard_hidePlacard:
  "placardVisible (hidePlacard c) = False"
  "placardOpacity (hidePlacard c) = (if placardVisible c then 0 else placardOpacity c)"
  "placardFadeStartTime (hidePlacard c) =
     (if placardVisible c then None else placardFadeStartTime c)"
  by (simp_all add: hidePlacard_def placardVisible_def placardOpacity_def split: option.splits)

lemma placard_enableRepositioning:
  "placardVisible (enableRepositioning c) = False"
  "placardOpacity (enableRepositioning c) = (if placardVisible c then 0 else placardOpacity c)"
  "placardFadeStartTime (enableRepositioning c) =
     (if placardVisible c then None else placardFadeStartTime c)"
  by (simp_all add: enableRepositioning_def hidePlacard_def placardVisible_def placardOpacity_def
        Let_def split: option.splits)

lemma repositionStage_sets:
  "placardVisible (repositionStage f c) = (placardVisible c \<and> \<not> repositionEdge f c)"
  "placardOpacity (repositionStage f c) =
     (if placardVisible c \<and> repositionEdge f c then 0 else placardOpacity c)"
  "placardFadeStartTime (repositionStage f c) =
     (if placardVisible c \<and> repositionEdge f c then None else placardFadeStartTime c)"
  "isPlaced (repositionStage f c) = (isPlaced c \<and> \<not> repositionEdge f c)"
  "xButtonPressed (repositionStage f c) = xButtonCurrentlyPressed (inputSources f)"
  "repositionCalls (repositionStage f c) =
     (if repositionEdge f c then Suc (repositionCalls c) else repositionCalls c)"
  by (simp_all add: repositionStage_def repositionEdge_def placardVisible_def placardOpacity_def
        enableRepositioning_def hidePlacard_def Let_def split: option.splits)

lemma placard_pointingStage:
  "placardVisible c \<Longrightarrow> placardVisible (state_of (pointingStage now f c)) =
     (isPlaced c \<and> visible (platform c) \<longrightarrow> pointingAtPlatform (inputSources f))"
  "placardVisible c \<Longrightarrow> placardOpacity (state_of (pointingStage now f c)) =
     (if isPlaced c \<and> visible (platform c) \<and> \<not> pointingAtPlatform (inputSources f)
      then 0 else placardOpacity c)"
  "placardVisible c \<Longrightarrow> placardFadeStartTime (state_of (pointingStage now f c)) =
     (if isPlaced c \<and> visible (platform c) \<and> \<not> pointingAtPlatform (inputSources f)
      then None else placardFadeStartTime c)"
  "\<not> isPlaced c \<Longrightarrow> pointingStage now f c = Done c"
  by (simp_all add: pointingStage_def hidePlacard_def showPlacard_def placardVisible_def
        placardOpacity_def split: option.splits)

lemma placard_hitTestStage:
  "placardVisible (hitTestStage f c) = placardVisible c"
  "placardOpacity (hitTestStage f c) = placardOpacity c"
  by (simp_all add: placardVisible_def placardOpacity_def)

lemma placard_renderDesktop:
  "placardVisible (state_of (renderDesktop c)) = placardVisible c"
  "placardOpacity (state_of (renderDesktop c)) = placardOpacity c"
  by (simp_all add: placardVisible_def placardOpacity_def)

lemma render_branches:
  "\<not> xrBranch t c \<Longrightarrow> render t c = renderDesktop (fadePlacard (perfNow t) c)"
  "xrFrame t = Some f \<Longrightarrow> xrSession c \<noteq> None \<Longrightarrow>
     render t c = renderXR (perfNowShow t) f (fadePlacard (perfNow t) c)"
  by (auto simp: render_def xrBranch_def Let_def split: option.splits)

lemma render_fade:
  assumes "placardVisible c" "placardFadeStartTime c = Some start"
  shows "placardOpacity (state_of (render t c)) =
     (if placardVisible (state_of (render t c)) then easeOut (perfNow t - start) else 0)"
proof (cases "xrBranch t c")
  case False
  then show ?thesis using assms
    by (simp add: render_branches placard_renderDesktop placard_fadePlacard)
next
  case True
  then obtain f where f: "xrFrame t = Some f" and s: "xrSession c \<noteq> None"
    by (auto simp: xrBranch_def)
  define c1 where "c1 = fadePlacard (perfNow t) c"
  have r: "render t c = renderXR (perfNowShow t) f c1"
    using f s by (simp add: render_branches c1_def)
  have c1: "placardVisible c1" "placardOpacity c1 = easeOut (perfNow t - start)"
    using assms by (simp_all add: c1_def placard_fadePlacard)
  show ?thesis
  proof (cases "repositionEdge f c1")
    case True
    then show ?thesis using c1
      by (simp add: r renderXR_state repositionStage_sets placard_pointingStage
            placard_hitTestStage)
  next
    case False
    then show ?thesis using c1
      by (simp add: r renderXR_state repositionStage_sets placard_pointingStage
            placard_hitTestStage)
  qed
qed

lemma render_snap:
  assumes "xrFrame t = Some f" "xrSession c \<noteq> None" "placardVisible c"
    and "repositionEdge f c \<or>
         (isPlaced c \<and> visible (platform c) \<and> \<not> pointingAtPlatform (inputSources f))"
  shows "\<not> placardVisible (state_of (render t c))"
proof -
  define c1 where "c1 = fadePlacard (perfNow t) c"
  have r: "render t c = renderXR (perfNowShow t) f c1"
    using assms(1,2) by (simp add: render_branches c1_def)
  have c1: "placardVisible c1" "repositionEdge f c1 = repositionEdge f c"
    using assms(3) by (simp_all add: c1_def placard_fadePlacard repositionEdge_def)
  show ?thesis
  proof (cases "repositionEdge f c")
    case True
    then show ?thesis using c1
      by (simp add: r renderXR_state repositionStage_sets placard_pointingStage
            placard_hitTestStage)
  next
    case False
    with assms(4) have "isPlaced c1 \<and> visible (platform c1) \<and>
        \<not> pointingAtPlatform (inputSources f)"
      by (simp add: c1_def)
    then show ?thesis using c1 False
      by (simp add: r renderXR_state repositionStage_sets placard_pointingStage
            placard_hitTestStage)
  qed
qed

section \<open>The audio object\<close>

lemma audio_playAudio:
  "playing (playAudio c) = (playing c \<or> (audioLoaded c \<and> positionalAudio c \<noteq> None))"
  "plays (playAudio c) =
     (if audioLoaded c \<and> positionalAudio c \<noteq> None \<and> \<not> playing c then Suc (plays c)
      else plays c)"
  "looping (playAudio c) = looping c"
  by (auto simp: playAudio_def play_def playing_def plays_def looping_def split: option.splits)

section \<open>Frames without a hit-test source\<close>

lemma render_hitTestSource_None:
  assumes "hitTestSource c = None"
  shows "visible (reticle (state_of (render t c))) \<longrightarrow> visible (reticle c)"
proof (cases "xrBranch t c")
  case False
  then show ?thesis by (simp add: render_branches)
next
  case True
  then obtain f where f: "xrFrame t = Some f" and s: "xrSession c \<noteq> None"
    by (auto simp: xrBranch_def)
  have ht: "hitTestSource c1 = None \<Longrightarrow> visible (reticle (hitTestStage f c1)) \<longrightarrow> visible (reticle c1)" for c1
    by (simp add: hitTestStage_def requestHitTestSource_def Let_def)
  show ?thesis
    using assms ht[of "state_of (pointingStage (perfNowShow t) f (repositionStage f (fadePlacard (perfNow t) c)))"]
    by (simp add: render_branches(2)[OF f s] renderXR_state)
qed

lemma frames_hitTestSource_None:
  "hitTestSource c = None \<Longrightarrow>
   visible (reticle (run (map Render ts) c)) \<longrightarrow> visible (reticle c)"
proof (induction ts arbitrary: c)
  case Nil
  then show ?case by simp
next
  case (Cons t ts)
  have "hitTestSource (state_of (render t c)) = None"
    using Cons.prems by simp
  from Cons.IH[OF this] render_hitTestSource_None[OF Cons.prems, of t]
  show ?case by simp
qed

section \<open>The reposition button across frames\<close>

lemma xButtonCurrentlyPressed_iff:
  "xButtonCurrentlyPressed srcs =
     (\<exists>s \<in> set srcs. \<exists>bs. gamepad s = Some bs \<and> (buttonPressed bs 4 \<or> buttonPressed bs 5))"
  by (induction srcs) (auto split: option.splits)

lemma render_xr_sets:
  assumes "xrFrame t = Some f" "xrSession c \<noteq> None"
  shows "xButtonPressed (state_of (render t c)) = xButtonCurrentlyPressed (inputSources f)"
    and "repositionCalls (state_of (render t c)) =
           (if repositionEdge f c then Suc (repositionCalls c) else repositionCalls c)"
    and "isPlaced (state_of (render t c)) = (isPlaced c \<and> \<not> repositionEdge f c)"
proof -
  have e: "repositionEdge f (fadePlacard (perfNow t) c) = repositionEdge f c"
    by (simp add: repositionEdge_def)
  show "xButtonPressed (state_of (render t c)) = xButtonCurrentlyPressed (inputSources f)"
    by (simp add: render_branches(2)[OF assms] renderXR_state repositionStage_sets)
  show "repositionCalls (state_of (render t c)) =
           (if repositionEdge f c then Suc (repositionCalls c) else repositionCalls c)"
    by (simp add: render_branches(2)[OF assms] renderXR_state repositionStage_sets e)
  show "isPlaced (state_of (render t c)) = (isPlaced c \<and> \<not> repositionEdge f c)"
    by (simp add: render_branches(2)[OF assms] renderXR_state repositionStage_sets e)
qed

lemma held_frames_quiet:
  "xrSession c \<noteq> None \<Longrightarrow> xButtonPressed c \<Longrightarrow> \<forall>t \<in> set ts. heldFrame t \<Longrightarrow>
   repositionCalls (run (map Render ts) c) = repositionCalls c
   \<and> isPlaced (run (map Render ts) c) = isPlaced c
   \<and> xButtonPressed (run (map Render ts) c)"
proof (induction ts arbitrary: c)
  case Nil
  then show ?case by simp
next
  case (Cons t ts)
  from Cons.prems(3) obtain f where f: "xrFrame t = Some f"
    and held: "xButtonCurrentlyPressed (inputSources f)"
    by (auto simp: heldFrame_def split: option.splits)
  have noedge: "\<not> repositionEdge f c"
    using Cons.prems(2) by (simp add: repositionEdge_def)
  define c1 where "c1 = state_of (render t c)"
  have c1: "xrSession c1 \<noteq> None" "xButtonPressed c1"
    "repositionCalls c1 = repositionCalls c" "isPlaced c1 = isPlaced c"
    using Cons.prems(1) held noedge
    by (simp_all add: c1_def render_xr_sets[OF f Cons.prems(1)])
  from Cons.prems(3) have rest: "\<forall>t \<in> set ts. heldFrame t" by simp
  from Cons.IH[OF c1(1) c1(2) rest] show ?case
    by (simp add: c1 flip: c1_def)
qed

lemma sample_held: "heldFrame (sampleTick now True n hits)"
  "releasedFrame (sampleTick now False n hits)"
  by (simp_all add: heldFrame_def releasedFrame_def sample_defs buttonPressed_def)

section \<open>Starting a session\<close>

lemma sampleReady_facts:
  "preferredMode sampleReady = ImmersiveAR" "xrSession sampleReady = None"
  by (simp_all add: sampleReady_def sample_defs method_defs)

lemma catchStartError_sets:
  "snd (catchStartError msg c) =
     (if preferredMode c = ImmersiveAR \<and> \<not> includes_str msg ''already an active''
      then Some 1000 else None)"
  "preferredMode (fst (catchStartError msg c)) =
     (if preferredMode c = ImmersiveAR \<and> \<not> includes_str msg ''already an active''
      then ImmersiveVR else preferredMode c)"
  "ui (fst (catchStartError msg c)) =
     (ui c)\<lparr>statusText := ''Error starting VR: '' @ msg, startButtonDisabled := False\<rparr>"
  by (simp_all add: catchStartError_def Let_def)

lemma openSession_failure:
  assumes "(case requestResult r of Inl msg \<Rightarrow> Some msg | Inr sid \<Rightarrow> setupResult r) = Some msg"
  shows "\<exists>c'. openSession r c = catchStartError msg c' \<and> preferredMode c' = preferredMode c"
proof (cases "requestResult r")
  case (Inl m)
  then show ?thesis using assms by (auto simp: openSession_def Let_def)
next
  case (Inr sid)
  then have "openSession r c
      = catchStartError msg (c\<lparr>xrSession := Some \<lparr>sessionId = sid, listening = False\<rparr>\<rparr>)"
    using assms by (simp add: openSession_def Let_def)
  then show ?thesis by (intro exI[of _ "c\<lparr>xrSession := Some \<lparr>sessionId = sid, listening = False\<rparr>\<rparr>"]) simp
qed

lemma openSession_success:
  assumes "(case requestResult r of Inl msg \<Rightarrow> Some msg | Inr sid \<Rightarrow> setupResult r) = None"
  shows "snd (openSession r c) = None" "preferredMode (fst (openSession r c)) = preferredMode c"
  using assms by (auto simp: openSession_def Let_def split: sum.splits)

lemma startXRSession_failure:
  assumes "startError r c = Some msg"
  shows "\<exists>c'. startXRSession r c = catchStartError msg c' \<and> preferredMode c' = preferredMode c"
proof -
  define c0 where "c0 = c\<lparr>ui := (ui c)\<lparr>startButtonDisabled := True,
                               statusText := ''Starting VR session...''\<rparr>\<rparr>"
  have p0: "preferredMode c0 = preferredMode c" "xrSession c0 = xrSession c"
    by (simp_all add: c0_def)
  show ?thesis
  proof (cases "xrSession c")
    case None
    then have "startXRSession r c = openSession r c0"
      by (simp add: startXRSession_def c0_def)
    moreover have "(case requestResult r of Inl msg \<Rightarrow> Some msg | Inr sid \<Rightarrow> setupResult r) = Some msg"
      using assms None by (simp add: startError_def)
    ultimately show ?thesis using openSession_failure[of r msg c0] p0 by auto
  next
    case (Some s)
    show ?thesis
    proof (cases "endResult r")
      case None
      then have "startXRSession r c = openSession r (endExisting s c0)"
        using Some by (simp add: startXRSession_def c0_def)
      moreover have "(case requestResult r of Inl msg \<Rightarrow> Some msg | Inr sid \<Rightarrow> setupResult r) = Some msg"
        using assms None by (simp add: startError_def)
      ultimately show ?thesis using openSession_failure[of r msg "endExisting s c0"] p0 by auto
    next
      case (Some m)
      then have "startXRSession r c = catchStartError m c0" "m = msg"
        using \<open>xrSession c = Some s\<close> assms by (simp_all add: startXRSession_def c0_def startError_def)
      then show ?thesis using p0 by auto
    qed
  qed
qed

lemma startXRSession_success:
  assumes "startError r c = None"
  shows "snd (startXRSession r c) = None"
    and "preferredMode (fst (startXRSession r c)) = preferredMode c"
proof -
  define c0 where "c0 = c\<lparr>ui := (ui c)\<lparr>startButtonDisabled := True,
                               statusText := ''Starting VR session...''\<rparr>\<rparr>"
  have ok: "(case requestResult r of Inl msg \<Rightarrow> Some msg | Inr sid \<Rightarrow> setupResult r) = None"
    using assms by (auto simp: startError_def split: if_splits)
  have "\<exists>c1. startXRSession r c = openSession r c1 \<and> preferredMode c1 = preferredMode c"
  proof (cases "xrSession c")
    case None
    then have "startXRSession r c = openSession r c0 \<and> preferredMode c0 = preferredMode c"
      by (simp add: startXRSession_def c0_def)
    then show ?thesis by blast
  next
    case (Some s)
    then have "endResult r = None"
      using assms by (auto simp: startError_def split: if_splits)
    then have "startXRSession r c = openSession r (endExisting s c0)
        \<and> preferredMode (endExisting s c0) = preferredMode c"
      using Some by (simp add: startXRSession_def c0_def)
    then show ?thesis by blast
  qed
  then obtain c1 where c1: "startXRSession r c = openSession r c1"
    "preferredMode c1 = preferredMode c" by blast
  show "snd (startXRSession r c) = None"
    by (simp add: c1 openSession_success[OF ok])
  show "preferredMode (fst (startXRSession r c)) = preferredMode c"
    by (simp add: c1 openSession_success[OF ok])
qed

lemma startXRSession_retry:
  "snd (startXRSession r c) =
     (case startError r c of
        None \<Rightarrow> None
      | Some msg \<Rightarrow>
          if preferredMode c = ImmersiveAR \<and> \<not> includes_str msg ''already an active''
          then Some 1000 else None)"
  "snd (startXRSession r c) \<noteq> None \<Longrightarrow> preferredMode (fst (startXRSession r c)) = ImmersiveVR"
  "preferredMode c = ImmersiveVR \<Longrightarrow> preferredMode (fst (startXRSession r c)) = ImmersiveVR"
proof -
  show "snd (startXRSession r c) =
     (case startError r c of
        None \<Rightarrow> None
      | Some msg \<Rightarrow>
          if preferredMode c = ImmersiveAR \<and> \<not> includes_str msg ''already an active''
          then Some 1000 else None)"
  proof (cases "startError r c")
    case None
    then show ?thesis by (simp add: startXRSession_success)
  next
    case (Some msg)
    from startXRSession_failure[OF this] obtain c' where
      "startXRSession r c = catchStartError msg c'" "preferredMode c' = preferredMode c" by blast
    then show ?thesis using Some by (simp add: catchStartError_sets)
  qed
  show "snd (startXRSession r c) \<noteq> None \<Longrightarrow> preferredMode (fst (startXRSession r c)) = ImmersiveVR"
  proof (cases "startError r c")
    case None
    assume "snd (startXRSession r c) \<noteq> None"
    then show ?thesis using None by (simp add: startXRSession_success)
  next
    case (Some msg)
    assume a: "snd (startXRSession r c) \<noteq> None"
    from startXRSession_failure[OF Some] obtain c' where
      "startXRSession r c = catchStartError msg c'" "preferredMode c' = preferredMode c" by blast
    then show ?thesis using a by (simp add: catchStartError_sets split: if_splits)
  qed
  show "preferredMode c = ImmersiveVR \<Longrightarrow> preferredMode (fst (startXRSession r c)) = ImmersiveVR"
  proof (cases "startError r c")
    case None
    assume "preferredMode c = ImmersiveVR"
    then show ?thesis using None by (simp add: startXRSession_success)
  next
    case (Some msg)
    assume a: "preferredMode c = ImmersiveVR"
    from startXRSession_failure[OF Some] obtain c' where
      "startXRSession r c = catchStartError msg c'" "preferredMode c' = preferredMode c" by blast
    then show ?thesis using a by (simp add: catchStartError_sets)
  qed
qed

lemma autoRetries_VR: "preferredMode c = ImmersiveVR \<Longrightarrow> autoRetries rs c = 0"
proof (cases rs)
  case Nil
  then show ?thesis by simp
next
  case (Cons r rs')
  assume "preferredMode c = ImmersiveVR"
  then have "snd (startXRSession r c) = None"
    by (simp add: startXRSession_retry(1) split: option.splits)
  then show ?thesis using Cons by (cases "startXRSession r c") simp
qed

lemma autoRetries_le_1: "autoRetries rs c \<le> 1"
proof (cases rs)
  case Nil
  then show ?thesis by simp
next
  case (Cons r rs')
  obtain c1 d where s: "startXRSession r c = (c1, d)" by (cases "startXRSession r c")
  show ?thesis
  proof (cases d)
    case None
    then show ?thesis using Cons s by simp
  next
    case (Some delay)
    then have "preferredMode c1 = ImmersiveVR"
      using startXRSession_retry(2)[of r c] s by simp
    then have "autoRetries rs' c1 = 0" by (rule autoRetries_VR)
    then show ?thesis using Cons s Some by simp
  qed
qed

lemma startXRSession_failure_ui:
  assumes "startError r c = Some msg"
  shows "statusText (ui (fst (startXRSession r c))) = ''Error starting VR: '' @ msg"
    and "\<not> startButtonDisabled (ui (fst (startXRSession r c)))"
proof -
  from startXRSession_failure[OF assms] obtain c' where
    c': "startXRSession r c = catchStartError msg c'" by blast
  show "statusText (ui (fst (startXRSession r c))) = ''Error starting VR: '' @ msg"
    by (simp add: c' catchStartError_sets)
  show "\<not> startButtonDisabled (ui (fst (startXRSession r c)))"
    by (simp add: c' catchStartError_sets)
qed

lemma sample_messages:
  "\<not> includes_str ''The specified session configuration is not supported.'' ''already an active''"
  "includes_str ''There is already an active, immersive XRSession.'' ''already an active''"
  by simp_all

section \<open>Audio across events\<close>

lemma onSelect_cases:
  "visible (reticle c) \<Longrightarrow> dancer c = Some d \<Longrightarrow>
     onSelect c = Done (playAudio
       (c\<lparr>platform := (platform c)\<lparr>position := position (reticle c), visible := True\<rparr>,
          dancer := Some (d\<lparr>visible := True\<rparr>),
          isPlaced := True,
          reticle := (reticle c)\<lparr>visible := False\<rparr>\<rparr>))"
  "visible (reticle c) \<Longrightarrow> dancer c = None \<Longrightarrow>
     onSelect c = TypeError
       (c\<lparr>platform := (platform c)\<lparr>position := position (reticle c), visible := True\<rparr>\<rparr>)"
  "\<not> visible (reticle c) \<Longrightarrow>
     onSelect c = Done (if isPlaced c then c else placeAtDefaultPosition c)"
  by (simp_all add: onSelect_def Let_def)

lemma audio_onSelect:
  "plays (state_of (onSelect c)) =
     (if visible (reticle c) \<and> dancer c \<noteq> None \<and> audioLoaded c \<and> positionalAudio c \<noteq> None
         \<and> \<not> playing c
      then Suc (plays c) else plays c)"
  "playing (state_of (onSelect c)) =
     (playing c \<or> (visible (reticle c) \<and> dancer c \<noteq> None \<and> audioLoaded c
                   \<and> positionalAudio c \<noteq> None))"
  "looping (state_of (onSelect c)) = looping c"
proof -
  consider (commit) d where "visible (reticle c)" "dancer c = Some d"
    | (throw) "visible (reticle c)" "dancer c = None"
    | (hidden) "\<not> visible (reticle c)"
    by (cases "dancer c") auto
  then have "plays (state_of (onSelect c)) =
     (if visible (reticle c) \<and> dancer c \<noteq> None \<and> audioLoaded c \<and> positionalAudio c \<noteq> None
         \<and> \<not> playing c
      then Suc (plays c) else plays c)
    \<and> playing (state_of (onSelect c)) =
     (playing c \<or> (visible (reticle c) \<and> dancer c \<noteq> None \<and> audioLoaded c
                   \<and> positionalAudio c \<noteq> None))
    \<and> looping (state_of (onSelect c)) = looping c"
  proof cases
    case commit
    define c2 where "c2 = c\<lparr>platform := (platform c)\<lparr>position := position (reticle c),
                                                     visible := True\<rparr>,
          dancer := Some (d\<lparr>visible := True\<rparr>),
          isPlaced := True,
          reticle := (reticle c)\<lparr>visible := False\<rparr>\<rparr>"
    have sel: "state_of (onSelect c) = playAudio c2"
      using commit by (simp add: onSelect_cases(1) c2_def)
    have same: "playing c2 = playing c" "plays c2 = plays c" "looping c2 = looping c"
      "audioLoaded c2 = audioLoaded c" "positionalAudio c2 = positionalAudio c"
      by (simp_all add: c2_def playing_def plays_def looping_def)
    show ?thesis
      using commit by (simp add: sel audio_playAudio same)
  next
    case throw
    then show ?thesis
      by (simp add: onSelect_cases(2) playing_def plays_def looping_def)
  next
    case hidden
    then show ?thesis
      by (simp add: onSelect_cases(3) playing_def plays_def looping_def)
  qed
  then show "plays (state_of (onSelect c)) =
     (if visible (reticle c) \<and> dancer c \<noteq> None \<and> audioLoaded c \<and> positionalAudio c \<noteq> None
         \<and> \<not> playing c
      then Suc (plays c) else plays c)"
    and "playing (state_of (onSelect c)) =
     (playing c \<or> (visible (reticle c) \<and> dancer c \<noteq> None \<and> audioLoaded c
                   \<and> positionalAudio c \<noteq> None))"
    and "looping (state_of (onSelect c)) = looping c"
    by blast+
qed

lemma audio_onAudioLoaded:
  "plays (onAudioLoaded c) = plays c"
  "playing (onAudioLoaded c) = playing c"
  "looping (onAudioLoaded c) = (looping c \<or> positionalAudio c \<noteq> None)"
  "audioLoaded (onAudioLoaded c) = (audioLoaded c \<or> positionalAudio c \<noteq> None)"
  by (simp_all add: onAudioLoaded_def plays_def playing_def looping_def split: option.splits)

lemma audio_onAudioEnded:
  "plays (onAudioEnded c) = plays c"
  "playing (onAudioEnded c) = (playing c \<and> looping c)"
  "looping (onAudioEnded c) = looping c"
  by (auto simp: onAudioEnded_def plays_def playing_def looping_def split: option.splits)

lemma audio_step:
  "plays (step e c) =
     (if e = Select \<and> visible (reticle c) \<and> dancer c \<noteq> None \<and> audioLoaded c
         \<and> positionalAudio c \<noteq> None \<and> \<not> playing c
      then Suc (plays c) else plays c)
   \<and> playing (step e c) =
     (if e = Select
      then playing c \<or> (visible (reticle c) \<and> dancer c \<noteq> None \<and> audioLoaded c
                        \<and> positionalAudio c \<noteq> None)
      else if e = AudioEnded then playing c \<and> looping c
      else playing c)
   \<and> looping (step e c) = (looping c \<or> (e = AudioLoaded \<and> positionalAudio c \<noteq> None))
   \<and> audioLoaded (step e c) = (audioLoaded c \<or> (e = AudioLoaded \<and> positionalAudio c \<noteq> None))"
proof (cases e)
  case (Render t)
  then show ?thesis by (simp add: plays_def playing_def looping_def)
next
  case Select
  then show ?thesis by (simp add: audio_onSelect)
next
  case SessionEnd
  then show ?thesis by (simp add: plays_def playing_def looping_def)
next
  case (Start r)
  then show ?thesis by (simp add: plays_def playing_def looping_def)
next
  case (HitTestSettled h)
  then show ?thesis by (simp add: plays_def playing_def looping_def)
next
  case AudioLoaded
  then show ?thesis by (simp add: audio_onAudioLoaded)
next
  case AudioEnded
  then show ?thesis by (simp add: audio_onAudioEnded)
next
  case PlacardLoaded
  then show ?thesis by (simp add: plays_def playing_def looping_def)
next
  case (XRSupportChecked hasXR answer)
  then show ?thesis by (simp add: plays_def playing_def looping_def)
qed

lemma audioInv_step: "audioInv c \<Longrightarrow> audioInv (step e c)"
  using audio_step[of e c] by (auto simp: audioInv_def looping_def split: option.splits)

lemma audioInv_run: "audioInv c \<Longrightarrow> audioInv (run evs c)"
  by (induction evs arbitrary: c) (simp_all add: audioInv_step)

lemma audioInv_initial: "audioInv (initial page flat)"
  by (simp add: audioInv_def initial_def playing_def looping_def)

lemma playing_step: "audioInv c \<Longrightarrow> playing c \<Longrightarrow> playing (step e c)"
  using audio_step[of e c] by (auto simp: audioInv_def)

lemma playing_run: "audioInv c \<Longrightarrow> playing c \<Longrightarrow> playing (run evs c)"
  by (induction evs arbitrary: c) (simp_all add: audioInv_step playing_step)

lemma playBudget_step: "audioInv c \<Longrightarrow> playBudget (step e c) \<le> playBudget c"
  using audio_step[of e c] by (auto simp: audioInv_def playBudget_def)

lemma playBudget_run: "audioInv c \<Longrightarrow> playBudget (run evs c) \<le> playBudget c"
proof (induction evs arbitrary: c)
  case Nil
  then show ?case by simp
next
  case (Cons e evs)
  have "playBudget (run evs (step e c)) \<le> playBudget (step e c)"
    using Cons.prems by (intro Cons.IH audioInv_step)
  also have "\<dots> \<le> playBudget c"
    using Cons.prems by (rule playBudget_step)
  finally show ?case by simp
qed

lemma plays_mono_step: "plays c \<le> plays (step e c)"
  using audio_step[of e c] by simp

lemma plays_mono_run: "plays c \<le> plays (run evs c)"
proof (induction evs arbitrary: c)
  case Nil
  then show ?case by simp
next
  case (Cons e evs)
  have "plays c \<le> plays (step e c)" by (rule plays_mono_step)
  also have "\<dots> \<le> plays (run evs (step e c))" by (rule Cons.IH)
  finally show ?case by simp
qed

lemma plays_no_select: "Select \<notin> set evs \<Longrightarrow> plays (run evs c) = plays c"
proof (induction evs arbitrary: c)
  case Nil
  then show ?case by simp
next
  case (Cons e evs)
  then have "e \<noteq> Select" "Select \<notin> set evs" by auto
  then show ?case using Cons.IH[of "step e c"] audio_step[of e c] by simp
qed

section \<open>The sample session and the audio\<close>

lemma samplePlaced_run: "run sampleEvents (initial samplePage sampleFlat) = samplePlaced"
  by (simp add: sampleEvents_def samplePlaced_def sampleTracking_def sampleStarted_def)

lemma sampleSilent_facts:
  "visible (reticle sampleSilent)" "\<not> audioLoaded sampleSilent" "plays sampleSilent = 0"
  "\<not> playing sampleSilent" "dancer sampleSilent \<noteq> None" "positionalAudio sampleSilent \<noteq> None"
  by (simp_all add: sampleSilent_def sample_defs method_defs plays_def playing_def)

lemma select_twice:
  "\<not> (visible (reticle (step Select c)) \<and> dancer (step Select c) \<noteq> None)"
proof -
  consider (commit) d where "visible (reticle c)" "dancer c = Some d"
    | (throw) "visible (reticle c)" "dancer c = None"
    | (hidden) "\<not> visible (reticle c)"
    by (cases "dancer c") auto
  then show ?thesis
  proof cases
    case commit
    then show ?thesis by (simp add: onSelect_cases(1))
  next
    case throw
    then show ?thesis by (simp add: onSelect_cases(2))
  next
    case hidden
    then show ?thesis by (simp add: onSelect_cases(3))
  qed
qed

section \<open>A placed object across frames and events\<close>




















section \<open>The claims\<close>

text \<open>
  C1, as the code has it. When the hit-test request is rejected, the controller runs
  \<^verbatim>\<open>placeAtDefaultPosition\<close>: the platform goes to \<open>(0, 0.3, -1)\<close>, platform and dancer
  are shown. The placement flag is left as it is, so an unplaced object stays unplaced;
  the reticle and the (absent) source are left alone, and with no source no later frame
  makes a hidden reticle visible, so the controller does not track.
\<close>

theorem C1_default_fallback:
  "position (platform (hitTestSettled None c)) = (0, 3 / 10, - 1)
   \<and> visible (platform (hitTestSettled None c))
   \<and> dancer (hitTestSettled None c) = map_option (\<lambda>d. d\<lparr>visible := True\<rparr>) (dancer c)
   \<and> isPlaced (hitTestSettled None c) = isPlaced c
   \<and> reticle (hitTestSettled None c) = reticle c
   \<and> hitTestSource (hitTestSettled None c) = hitTestSource c
   \<and> (hitTestSource c = None \<and> \<not> visible (reticle c) \<longrightarrow>
        \<not> visible (reticle (run (map Render ts) (hitTestSettled None c))))"
proof -
  have place: "position (platform (placeAtDefaultPosition c)) = (0, 3 / 10, - 1)"
    "visible (platform (placeAtDefaultPosition c))"
    "dancer (placeAtDefaultPosition c) = map_option (\<lambda>d. d\<lparr>visible := True\<rparr>) (dancer c)"
    by (cases "dancer c"; simp add: placeAtDefaultPosition_def showDancer_def defaultPosition_def)+
  have keep: "isPlaced (placeAtDefaultPosition c) = isPlaced c"
    "reticle (placeAtDefaultPosition c) = reticle c"
    "hitTestSource (placeAtDefaultPosition c) = hitTestSource c"
    by simp_all
  have none: "hitTestSource c = None \<and> \<not> visible (reticle c) \<longrightarrow>
        \<not> visible (reticle (run (map Render ts) (placeAtDefaultPosition c)))"
    using frames_hitTestSource_None[of "placeAtDefaultPosition c" ts] by auto
  from place keep none show ?thesis by simp
qed

theorem C1_default_fallback_witness:
  "hitTestSource sampleStarted = None \<and> hitTestSourceRequested sampleStarted
   \<and> \<not> visible (reticle sampleStarted)
   \<and> position (platform (hitTestSettled None sampleStarted)) = (0, 3 / 10, - 1)
   \<and> \<not> isPlaced (hitTestSettled None sampleStarted)
   \<and> \<not> visible (reticle (run (map Render [sampleTick 16 False 0 [Some sampleHit]])
                             (hitTestSettled None sampleStarted)))"
proof -
  have h: "hitTestSource sampleStarted = None" "hitTestSourceRequested sampleStarted"
    "\<not> visible (reticle sampleStarted)" "\<not> isPlaced sampleStarted"
    by (simp_all add: sampleStarted_eq)
  from C1_default_fallback[of sampleStarted "[sampleTick 16 False 0 [Some sampleHit]]"]
  show ?thesis using h by simp
qed

text \<open>
  C1 as stated fails on the Placed state: in the sample session the request made by the
  first frame is rejected; the platform stands at the default position and \<open>isPlaced\<close>
  is still false.
\<close>

theorem C1_placed_counterexample:
  "hitTestSourceRequested sampleStarted \<and> hitTestSource sampleStarted = None
   \<and> position (platform (step (HitTestSettled None) sampleStarted)) = (0, 3 / 10, - 1)
   \<and> \<not> isPlaced (step (HitTestSettled None) sampleStarted)"
  by (simp add: sampleStarted_eq placeAtDefaultPosition_def showDancer_def defaultPosition_def)

text \<open>
  C2, as the code has it. A select event that arrives while the reticle is visible (and
  the dancer is loaded) commits the placement: \<open>isPlaced\<close> becomes true, the platform's
  position becomes exactly the reticle's position, platform and dancer are shown and the
  reticle is hidden. Only the position is copied: the platform's orientation stays what
  it was and does not take the orientation of the sample. \<^verbatim>\<open>playAudio\<close> then starts
  playback when the clip is loaded and not yet playing, and changes nothing otherwise.
\<close>

theorem C2_select_while_tracking:
  assumes "visible (reticle c)" and "dancer c = Some d"
  shows "completed (onSelect c)
    \<and> isPlaced (state_of (onSelect c))
    \<and> position (platform (state_of (onSelect c))) = position (reticle c)
    \<and> quaternion (platform (state_of (onSelect c))) = quaternion (platform c)
    \<and> visible (platform (state_of (onSelect c)))
    \<and> dancer (state_of (onSelect c)) = Some (d\<lparr>visible := True\<rparr>)
    \<and> reticle (state_of (onSelect c)) = (reticle c)\<lparr>visible := False\<rparr>
    \<and> playing (state_of (onSelect c))
        = (playing c \<or> (audioLoaded c \<and> positionalAudio c \<noteq> None))
    \<and> plays (state_of (onSelect c))
        = (if audioLoaded c \<and> positionalAudio c \<noteq> None \<and> \<not> playing c
           then Suc (plays c) else plays c)"
proof -
  define c2 where "c2 = c\<lparr>platform := (platform c)\<lparr>position := position (reticle c),
                                                   visible := True\<rparr>,
                          dancer := Some (d\<lparr>visible := True\<rparr>),
                          isPlaced := True,
                          reticle := (reticle c)\<lparr>visible := False\<rparr>\<rparr>"
  have sel: "onSelect c = Done (playAudio c2)"
    using assms by (simp add: onSelect_def c2_def Let_def)
  have audio: "playing c2 = playing c" "plays c2 = plays c"
    "audioLoaded c2 = audioLoaded c" "positionalAudio c2 = positionalAudio c"
    by (simp_all add: c2_def playing_def plays_def)
  have rest: "isPlaced (playAudio c2)"
    "position (platform (playAudio c2)) = position (reticle c)"
    "quaternion (platform (playAudio c2)) = quaternion (platform c)"
    "visible (platform (playAudio c2))"
    "dancer (playAudio c2) = Some (d\<lparr>visible := True\<rparr>)"
    "reticle (playAudio c2) = (reticle c)\<lparr>visible := False\<rparr>"
    by (simp_all add: c2_def)
  show ?thesis
    using rest by (simp add: sel audio_playAudio audio)
qed

theorem C2_select_while_tracking_witness:
  "visible (reticle sampleTracking)
   \<and> dancer sampleTracking
       = Some \<lparr>position = (0, 1 / 40, 0), quaternion = (0, 0, 0, 1), visible = True\<rparr>
   \<and> isPlaced (state_of (onSelect sampleTracking))
   \<and> position (platform (state_of (onSelect sampleTracking))) = (1, 0, - 2)
   \<and> quaternion (platform (state_of (onSelect sampleTracking))) = (0, 0, 0, 1)
   \<and> \<not> visible (reticle (state_of (onSelect sampleTracking)))
   \<and> playing (state_of (onSelect sampleTracking))
   \<and> plays (state_of (onSelect sampleTracking)) = 1"
proof -
  have h: "visible (reticle sampleTracking)"
    "dancer sampleTracking
       = Some \<lparr>position = (0, 1 / 40, 0), quaternion = (0, 0, 0, 1), visible = True\<rparr>"
    by (simp_all add: sampleTracking_eq)
  have v: "position (reticle sampleTracking) = (1, 0, - 2)"
    "quaternion (platform sampleTracking) = (0, 0, 0, 1)"
    "audioLoaded sampleTracking" "positionalAudio sampleTracking \<noteq> None"
    "\<not> playing sampleTracking" "plays sampleTracking = 0"
    by (simp_all add: sampleTracking_eq playing_def plays_def)
  from C2_select_while_tracking[OF h] show ?thesis
    using h v by simp
qed

text \<open>
  C2 as stated fails on the orientation: in the sample session the reticle tracks the pose
  with position \<open>(1, 0, -2)\<close> and orientation \<open>(0, 1, 0, 0)\<close>; after the select the
  platform is placed at that position with its orientation still \<open>(0, 0, 0, 1)\<close>.
\<close>

theorem C2_pose_counterexample:
  "visible (reticle sampleTracking)
   \<and> position (reticle sampleTracking) = (1, 0, - 2)
   \<and> quaternion (reticle sampleTracking) = (0, 1, 0, 0)
   \<and> isPlaced (state_of (onSelect sampleTracking))
   \<and> position (platform (state_of (onSelect sampleTracking))) = (1, 0, - 2)
   \<and> quaternion (platform (state_of (onSelect sampleTracking))) = (0, 0, 0, 1)
   \<and> quaternion (platform (state_of (onSelect sampleTracking)))
       \<noteq> quaternion (reticle sampleTracking)"
  by (simp add: sampleTracking_eq onSelect_def playAudio_def play_def Let_def)

text \<open>
  C3. The reposition trigger is edge-detected. Take a session, a frame in which no
  reposition button is pressed, and after it \<open>N \<ge> 1\<close> consecutive frames in each of
  which one is pressed (button 4 or 5 of the gamepad of some input source). The released
  frame calls \<^verbatim>\<open>enableRepositioning\<close> not at all, the first held frame calls it once,
  and the whole run calls it exactly once, not \<open>N\<close> times; the object is unplaced at the
  end.
\<close>

theorem C3_reposition_edge:
  assumes "xrSession c \<noteq> None" and "releasedFrame t0"
    and "ts \<noteq> []" and "\<forall>t \<in> set ts. heldFrame t"
  shows "repositionCalls (step (Render t0) c) = repositionCalls c
    \<and> repositionCalls (run (map Render [t0, hd ts]) c) = Suc (repositionCalls c)
    \<and> repositionCalls (run (map Render (t0 # ts)) c) = Suc (repositionCalls c)
    \<and> \<not> isPlaced (run (map Render (t0 # ts)) c)
    \<and> xButtonPressed (run (map Render (t0 # ts)) c)
    \<and> (heldFrame t \<longleftrightarrow>
         (\<exists>f. xrFrame t = Some f
            \<and> (\<exists>s \<in> set (inputSources f). \<exists>bs. gamepad s = Some bs
                  \<and> (buttonPressed bs 4 \<or> buttonPressed bs 5))))"
proof -
  from assms(2) obtain f0 where f0: "xrFrame t0 = Some f0"
    and rel: "\<not> xButtonCurrentlyPressed (inputSources f0)"
    by (auto simp: releasedFrame_def split: option.splits)
  define c0 where "c0 = state_of (render t0 c)"
  have c0: "xrSession c0 \<noteq> None" "\<not> xButtonPressed c0"
    "repositionCalls c0 = repositionCalls c"
    using assms(1) rel
    by (simp_all add: c0_def render_xr_sets[OF f0 assms(1)] repositionEdge_def)
  from assms(3) obtain t1 ts' where ts: "ts = t1 # ts'"
    by (cases ts) auto
  from assms(4) ts obtain f1 where f1: "xrFrame t1 = Some f1"
    and held: "xButtonCurrentlyPressed (inputSources f1)"
    by (auto simp: heldFrame_def split: option.splits)
  define c1 where "c1 = state_of (render t1 c0)"
  have edge: "repositionEdge f1 c0"
    using held c0(2) by (simp add: repositionEdge_def)
  have c1: "xrSession c1 \<noteq> None" "xButtonPressed c1"
    "repositionCalls c1 = Suc (repositionCalls c)" "\<not> isPlaced c1"
    using c0 held edge by (simp_all add: c1_def render_xr_sets[OF f1 c0(1)])
  from assms(4) ts have rest: "\<forall>t \<in> set ts'. heldFrame t" by simp
  note tail = held_frames_quiet[OF c1(1) c1(2) rest]
  have a: "repositionCalls (step (Render t0) c) = repositionCalls c"
    using c0(3) by (simp add: c0_def)
  have b: "repositionCalls (run (map Render [t0, hd ts]) c) = Suc (repositionCalls c)"
    using c1(3) by (simp add: ts c0_def c1_def)
  have run_eq: "run (map Render (t0 # ts)) c = run (map Render ts') c1"
    by (simp add: ts c0_def c1_def)
  have d: "repositionCalls (run (map Render (t0 # ts)) c) = Suc (repositionCalls c)"
    "\<not> isPlaced (run (map Render (t0 # ts)) c)"
    "xButtonPressed (run (map Render (t0 # ts)) c)"
    using tail c1 by (simp_all only: run_eq) simp_all
  have e: "heldFrame t \<longleftrightarrow>
         (\<exists>f. xrFrame t = Some f
            \<and> (\<exists>s \<in> set (inputSources f). \<exists>bs. gamepad s = Some bs
                  \<and> (buttonPressed bs 4 \<or> buttonPressed bs 5)))"
    by (cases "xrFrame t") (simp_all add: heldFrame_def xButtonCurrentlyPressed_iff)
  from a b d e show ?thesis by blast
qed

theorem C3_reposition_edge_witness:
  "xrSession samplePlaced \<noteq> None \<and> releasedFrame (sampleTick 48 False 0 [])
   \<and> heldFrame (sampleTick 64 True 0 []) \<and> heldFrame (sampleTick 80 True 0 [])
   \<and> heldFrame (sampleTick 96 True 0 [])
   \<and> isPlaced samplePlaced \<and> repositionCalls samplePlaced = 0
   \<and> repositionCalls
        (run (map Render [sampleTick 48 False 0 [], sampleTick 64 True 0 [],
                          sampleTick 80 True 0 [], sampleTick 96 True 0 []]) samplePlaced) = 1
   \<and> \<not> isPlaced
        (run (map Render [sampleTick 48 False 0 [], sampleTick 64 True 0 [],
                          sampleTick 80 True 0 [], sampleTick 96 True 0 []]) samplePlaced)"
proof -
  have h1: "xrSession samplePlaced \<noteq> None"
    by (simp add: samplePlaced_eq)
  have h2: "releasedFrame (sampleTick 48 False 0 [])"
    by (rule sample_held)
  have h3: "[sampleTick 64 True 0 [], sampleTick 80 True 0 [], sampleTick 96 True 0 []] \<noteq> []"
    by simp
  have h4: "\<forall>t \<in> set [sampleTick 64 True 0 [], sampleTick 80 True 0 [], sampleTick 96 True 0 []].
         heldFrame t"
    by (simp add: sample_held)
  have v: "isPlaced samplePlaced" "repositionCalls samplePlaced = 0"
    by (simp_all add: samplePlaced_eq)
  note T = C3_reposition_edge[OF h1 h2 h3 h4, where t = "sampleTick 64 True 0 []"]
  have a: "repositionCalls
        (run (map Render [sampleTick 48 False 0 [], sampleTick 64 True 0 [],
                          sampleTick 80 True 0 [], sampleTick 96 True 0 []]) samplePlaced) = 1"
    using T v(2) by simp
  have b: "\<not> isPlaced
        (run (map Render [sampleTick 48 False 0 [], sampleTick 64 True 0 [],
                          sampleTick 80 True 0 [], sampleTick 96 True 0 []]) samplePlaced)"
    using T by blast
  show ?thesis
    by (intro conjI) (fact h1 h2 v a b sample_held)+
qed

text \<open>
  C4, as the code has it. \<^verbatim>\<open>onSessionEnded\<close> clears the session, the hit-test source and
  its requested flag and the placement flag, hides the placard (opacity 0, fade marker
  cleared when a placard is loaded), re-enables the start button, shows the info panel
  and sets the status text. It leaves the audio object alone: what was playing keeps
  playing. Ending an open session from \<^verbatim>\<open>startXRSession\<close> runs the same handler when the
  listeners are registered.
\<close>

theorem C4_session_end:
  "xrSession (onSessionEnded c) = None
   \<and> hitTestSource (onSessionEnded c) = None
   \<and> \<not> hitTestSourceRequested (onSessionEnded c)
   \<and> \<not> isPlaced (onSessionEnded c)
   \<and> \<not> placardVisible (onSessionEnded c)
   \<and> placardOpacity (onSessionEnded c) = 0
   \<and> (placard c \<noteq> None \<longrightarrow> placardFadeStartTime (onSessionEnded c) = None)
   \<and> \<not> startButtonDisabled (ui (onSessionEnded c))
   \<and> infoDisplay (ui (onSessionEnded c)) = ''block''
   \<and> statusText (ui (onSessionEnded c)) = ''Session ended. Click Enter VR to restart.''
   \<and> positionalAudio (onSessionEnded c) = positionalAudio c
   \<and> audioLoaded (onSessionEnded c) = audioLoaded c
   \<and> playing (onSessionEnded c) = playing c
   \<and> (listening s \<longrightarrow> endExisting s c = onSessionEnded c)"
  by (cases "placard c")
     (simp_all add: onSessionEnded_def endExisting_def placardVisible_def placardOpacity_def
        playing_def Let_def)

theorem C4_session_end_witness:
  "placard samplePointing \<noteq> None
   \<and> xrSession samplePointing = Some \<lparr>sessionId = 1, listening = True\<rparr>
   \<and> listening \<lparr>sessionId = 1, listening = True\<rparr>
   \<and> placardFadeStartTime samplePointing = Some 100
   \<and> placardFadeStartTime (onSessionEnded samplePointing) = None
   \<and> \<not> isPlaced (onSessionEnded samplePointing)
   \<and> endExisting \<lparr>sessionId = 1, listening = True\<rparr> samplePointing
       = onSessionEnded samplePointing
   \<and> playing (onSessionEnded samplePointing)"
proof -
  have h: "placard samplePointing \<noteq> None"
    "xrSession samplePointing = Some \<lparr>sessionId = 1, listening = True\<rparr>"
    "placardFadeStartTime samplePointing = Some 100"
    "playing samplePointing"
    by (simp_all add: samplePointing_eq playing_def)
  from C4_session_end[of samplePointing "\<lparr>sessionId = 1, listening = True\<rparr>"]
  show ?thesis using h by simp
qed

text \<open>
  C4 as stated fails on the audio gate: the audio started by the placement of the sample
  session is still playing after the session has ended, by the \<^verbatim>\<open>end\<close> event or by the
  explicit end in a new start.
\<close>

theorem C4_audio_counterexample:
  "playing samplePlaced \<and> isPlaced samplePlaced
   \<and> playing (step SessionEnd samplePlaced)
   \<and> playing (step (Start startGranted) samplePlaced)"
  by (simp add: samplePlaced_eq playing_def)

text \<open>
  C5, as the code has it. A select event that arrives while the reticle is not visible
  never changes the placement flag. While the object is placed it changes nothing at all.
  While the object is unplaced it is not a no-op: it runs \<^verbatim>\<open>placeAtDefaultPosition\<close>,
  which moves the platform to \<open>(0, 0.3, -1)\<close> and shows platform and dancer; every other
  field stays as it was.
\<close>

theorem C5_select_without_sample:
  assumes "\<not> visible (reticle c)"
  shows "completed (onSelect c)
    \<and> isPlaced (state_of (onSelect c)) = isPlaced c
    \<and> (isPlaced c \<longrightarrow> state_of (onSelect c) = c)
    \<and> (\<not> isPlaced c \<longrightarrow>
         platform (state_of (onSelect c))
           = (platform c)\<lparr>position := (0, 3 / 10, - 1), visible := True\<rparr>
         \<and> dancer (state_of (onSelect c))
           = map_option (\<lambda>d. d\<lparr>visible := True\<rparr>) (dancer c)
         \<and> (state_of (onSelect c))\<lparr>platform := platform c, dancer := dancer c\<rparr> = c)"
  using assms
  by (cases "dancer c")
     (simp_all add: onSelect_def placeAtDefaultPosition_def showDancer_def defaultPosition_def)

theorem C5_select_without_sample_witness:
  "\<not> visible (reticle sampleRepositioned) \<and> \<not> isPlaced sampleRepositioned
   \<and> \<not> isPlaced (state_of (onSelect sampleRepositioned))
   \<and> position (platform (state_of (onSelect sampleRepositioned))) = (0, 3 / 10, - 1)
   \<and> \<not> visible (reticle samplePlaced) \<and> isPlaced samplePlaced
   \<and> state_of (onSelect samplePlaced) = samplePlaced"
proof -
  have r: "\<not> visible (reticle sampleRepositioned)" "\<not> isPlaced sampleRepositioned"
    by (simp_all add: sampleRepositioned_eq)
  have p: "\<not> visible (reticle samplePlaced)" "isPlaced samplePlaced"
    by (simp_all add: samplePlaced_eq)
  from C5_select_without_sample[OF r(1)] C5_select_without_sample[OF p(1)]
  show ?thesis using r p by simp
qed

text \<open>
  C5 as stated fails: after a placement at \<open>(1, 0, -2)\<close> and a reposition edge the object
  is unplaced with the reticle hidden, and a select event moves the platform to the
  default position.
\<close>

theorem C5_noop_counterexample:
  "\<not> isPlaced sampleRepositioned \<and> \<not> visible (reticle sampleRepositioned)
   \<and> position (platform sampleRepositioned) = (1, 0, - 2)
   \<and> position (platform (state_of (onSelect sampleRepositioned))) = (0, 3 / 10, - 1)
   \<and> state_of (onSelect sampleRepositioned) \<noteq> sampleRepositioned"
  by (simp add: sampleRepositioned_eq onSelect_def placeAtDefaultPosition_def showDancer_def
        defaultPosition_def)

text \<open>
  C6. Let an invocation of \<^verbatim>\<open>startXRSession\<close> in the preferred passthrough mode fail with
  a message that does not contain "already an active". Then the error is shown as status
  text, the start button is enabled again, the preferred mode becomes the non-passthrough
  one and one timer of 1000 ms is set to invoke \<^verbatim>\<open>startXRSession\<close> again. If that second
  invocation fails as well, its error is shown and the button enabled, and no timer is
  set: the chain holds exactly one automatic retry. No chain, from any state and with any
  answers of the platform, holds more than one; a failure whose message contains
  "already an active" sets no timer.
\<close>

theorem C6_single_fallback_retry:
  assumes "preferredMode c = ImmersiveAR"
    and "startError r1 c = Some m1"
    and "\<not> includes_str m1 ''already an active''"
    and "startError r2 (fst (startXRSession r1 c)) = Some m2"
  shows "snd (startXRSession r1 c) = Some 1000
    \<and> preferredMode (fst (startXRSession r1 c)) = ImmersiveVR
    \<and> statusText (ui (fst (startXRSession r1 c))) = ''Error starting VR: '' @ m1
    \<and> \<not> startButtonDisabled (ui (fst (startXRSession r1 c)))
    \<and> snd (startXRSession r2 (fst (startXRSession r1 c))) = None
    \<and> statusText (ui (fst (startXRSession r2 (fst (startXRSession r1 c)))))
        = ''Error starting VR: '' @ m2
    \<and> \<not> startButtonDisabled (ui (fst (startXRSession r2 (fst (startXRSession r1 c)))))
    \<and> autoRetries (r1 # r2 # rs) c = 1
    \<and> autoRetries rs' c' \<le> 1
    \<and> (startError r c' = Some m \<and> includes_str m ''already an active''
        \<longrightarrow> snd (startXRSession r c') = None)"
proof -
  define c1 where "c1 = fst (startXRSession r1 c)"
  have a1: "snd (startXRSession r1 c) = Some 1000"
    using assms(1,2,3) by (simp add: startXRSession_retry(1))
  then have a2: "preferredMode c1 = ImmersiveVR"
    using startXRSession_retry(2)[of r1 c] by (simp add: c1_def)
  have a3: "statusText (ui c1) = ''Error starting VR: '' @ m1"
    "\<not> startButtonDisabled (ui c1)"
    using startXRSession_failure_ui[OF assms(2)] by (simp_all add: c1_def)
  have b1: "snd (startXRSession r2 c1) = None"
    using a2 assms(4) by (simp add: startXRSession_retry(1) c1_def)
  have b2: "statusText (ui (fst (startXRSession r2 c1))) = ''Error starting VR: '' @ m2"
    "\<not> startButtonDisabled (ui (fst (startXRSession r2 c1)))"
    using startXRSession_failure_ui[of r2 c1 m2] assms(4) by (simp_all add: c1_def)
  have s1: "startXRSession r1 c = (c1, Some 1000)"
    using a1 by (simp add: c1_def prod_eq_iff)
  obtain c2 where s2: "startXRSession r2 c1 = (c2, None)"
    using b1 by (cases "startXRSession r2 c1") simp
  have "autoRetries (r2 # rs) c1 = 0"
    by (simp add: s2)
  then have d: "autoRetries (r1 # r2 # rs) c = 1"
    by (simp add: s1)
  have e: "autoRetries rs' c' \<le> 1"
    by (rule autoRetries_le_1)
  have f: "startError r c' = Some m \<and> includes_str m ''already an active''
        \<longrightarrow> snd (startXRSession r c') = None"
    by (simp add: startXRSession_retry(1))
  note g = a2[unfolded c1_def] a3[unfolded c1_def] b1[unfolded c1_def] b2[unfolded c1_def]
  show ?thesis
    by (intro conjI) (fact a1 g d e f)+
qed

theorem C6_single_fallback_retry_witness:
  "preferredMode sampleReady = ImmersiveAR
   \<and> startError (startRejected ''The specified session configuration is not supported.'')
        sampleReady = Some ''The specified session configuration is not supported.''
   \<and> \<not> includes_str ''The specified session configuration is not supported.''
          ''already an active''
   \<and> startError (startRejected ''No headset'')
        (fst (startXRSession
           (startRejected ''The specified session configuration is not supported.'')
           sampleReady)) = Some ''No headset''
   \<and> snd (startXRSession
           (startRejected ''The specified session configuration is not supported.'')
           sampleReady) = Some 1000
   \<and> snd (startXRSession (startRejected ''No headset'')
        (fst (startXRSession
           (startRejected ''The specified session configuration is not supported.'')
           sampleReady))) = None
   \<and> autoRetries
        [startRejected ''The specified session configuration is not supported.'',
         startRejected ''No headset'', startGranted] sampleReady = 1
   \<and> startError (startRejected ''There is already an active, immersive XRSession.'')
        sampleReady = Some ''There is already an active, immersive XRSession.''
   \<and> includes_str ''There is already an active, immersive XRSession.'' ''already an active''
   \<and> snd (startXRSession
           (startRejected ''There is already an active, immersive XRSession.'')
           sampleReady) = None"
proof -
  have h1: "preferredMode sampleReady = ImmersiveAR"
    by (rule sampleReady_facts)
  have se: "startError (startRejected msg) c' = Some msg" for msg c'
    by (simp add: startError_def startRejected_def)
  note h3 = sample_messages(1)
  note T = C6_single_fallback_retry[OF h1 se h3 se,
      where rs = "[startGranted]" and rs' = "[]" and c' = sampleReady
        and r = "startRejected ''There is already an active, immersive XRSession.''"
        and m = "''There is already an active, immersive XRSession.''"
        and ?m2.0 = "''No headset''"]
  have a: "snd (startXRSession
           (startRejected ''The specified session configuration is not supported.'')
           sampleReady) = Some 1000"
    using T by (rule conjunct1)
  have b: "snd (startXRSession (startRejected ''No headset'')
        (fst (startXRSession
           (startRejected ''The specified session configuration is not supported.'')
           sampleReady))) = None"
    using T by blast
  have d: "autoRetries
        [startRejected ''The specified session configuration is not supported.'',
         startRejected ''No headset'', startGranted] sampleReady = 1"
    using T by blast
  have e: "snd (startXRSession
           (startRejected ''There is already an active, immersive XRSession.'')
           sampleReady) = None"
    using T se sample_messages(2) by blast
  show ?thesis
    by (intro conjI) (fact h1 se h3 a b d e sample_messages(2))+
qed

text \<open>
  C7. While a placard fade-in is running (the placard is visible and the start-time
  marker holds \<open>start\<close>), the opacity that the fade block writes at clock reading
  \<open>now\<close> is the ease-out map \<open>progress * (2 - progress)\<close> of the clamped progress
  \<open>min ((now - start) / 1500) 1\<close>. As a function of the reading it is non-decreasing, it
  stays within \<open>[0, 1]\<close>, and it is exactly 1 at the duration of 1500 ms, where the marker
  is cleared. \<^verbatim>\<open>hidePlacard\<close> and \<^verbatim>\<open>enableRepositioning\<close> set the opacity to 0 whatever
  the progress, and a whole frame leaves either the eased opacity (placard still
  visible) or 0; on a reposition edge or when no ray points at the placed platform any
  more it leaves the placard hidden. Numbers are real numbers here, not doubles.
\<close>

theorem C7_placard_fade:
  assumes "placardVisible c" and "placardFadeStartTime c = Some start"
    and "start \<le> now1" and "now1 \<le> now2"
  shows "placardOpacity (fadePlacard now1 c) = easeOut (now1 - start)
    \<and> 0 \<le> placardOpacity (fadePlacard now1 c)
    \<and> placardOpacity (fadePlacard now1 c) \<le> placardOpacity (fadePlacard now2 c)
    \<and> placardOpacity (fadePlacard now2 c) \<le> 1
    \<and> placardOpacity (fadePlacard (start + fadeInDuration) c) = 1
    \<and> fadeInDuration = 1500
    \<and> placardFadeStartTime (fadePlacard now1 c)
        = (if fadeInDuration \<le> now1 - start then None else Some start)
    \<and> placardOpacity (hidePlacard (fadePlacard now1 c)) = 0
    \<and> placardOpacity (enableRepositioning (fadePlacard now1 c)) = 0
    \<and> placardOpacity (state_of (render t c))
        = (if placardVisible (state_of (render t c)) then easeOut (perfNow t - start) else 0)
    \<and> (xrFrame t = Some f \<and> xrSession c \<noteq> None
          \<and> (repositionEdge f c
              \<or> (isPlaced c \<and> visible (platform c) \<and> \<not> pointingAtPlatform (inputSources f)))
        \<longrightarrow> \<not> placardVisible (state_of (render t c)))"
proof -
  have op: "placardOpacity (fadePlacard n c) = easeOut (n - start)" for n
    using assms(1,2) by (simp add: placard_fadePlacard)
  have vis: "placardVisible (fadePlacard n c)" for n
    using assms(1) by (simp add: placard_fadePlacard)
  have c1: "placardOpacity (fadePlacard now1 c) = easeOut (now1 - start)"
    by (rule op)
  have "0 \<le> easeOut (now1 - start)"
    using assms(3) easeOut_range[of "now1 - start"] by simp
  then have c2: "0 \<le> placardOpacity (fadePlacard now1 c)"
    by (simp only: op)
  have "easeOut (now1 - start) \<le> easeOut (now2 - start)"
    using assms(4) by (intro easeOut_mono) simp
  then have c3: "placardOpacity (fadePlacard now1 c) \<le> placardOpacity (fadePlacard now2 c)"
    by (simp only: op)
  have "easeOut (now2 - start) \<le> 1"
    using assms(3,4) easeOut_range[of "now2 - start"] by simp
  then have c4: "placardOpacity (fadePlacard now2 c) \<le> 1"
    by (simp only: op)
  have c5: "placardOpacity (fadePlacard (start + fadeInDuration) c) = 1"
    by (simp add: op easeOut_full fadeInDuration_def)
  have c6: "fadeInDuration = 1500"
    by (rule fadeInDuration_def)
  have c7: "placardFadeStartTime (fadePlacard now1 c)
        = (if fadeInDuration \<le> now1 - start then None else Some start)"
    using assms(1,2) by (simp add: placard_fadePlacard fadeInDuration_def)
  have c8: "placardOpacity (hidePlacard (fadePlacard now1 c)) = 0"
    using vis by (simp add: placard_hidePlacard)
  have c9: "placardOpacity (enableRepositioning (fadePlacard now1 c)) = 0"
    using vis by (simp add: placard_enableRepositioning)
  have c10: "placardOpacity (state_of (render t c))
        = (if placardVisible (state_of (render t c)) then easeOut (perfNow t - start) else 0)"
    using assms(1,2) by (rule render_fade)
  have c11: "xrFrame t = Some f \<and> xrSession c \<noteq> None
          \<and> (repositionEdge f c
              \<or> (isPlaced c \<and> visible (platform c) \<and> \<not> pointingAtPlatform (inputSources f)))
        \<longrightarrow> \<not> placardVisible (state_of (render t c))"
    using assms(1) render_snap[of t f c] by blast
  from c1 c2 c3 c4 c5 c6 c7 c8 c9 c10 c11 show ?thesis
    by blast
qed

theorem C7_placard_fade_witness:
  "placardVisible samplePointing \<and> placardFadeStartTime samplePointing = Some 100
   \<and> (100 :: real) \<le> 850 \<and> (850 :: real) \<le> 1600
   \<and> placardOpacity (fadePlacard 850 samplePointing) = 3 / 4
   \<and> placardOpacity (fadePlacard 850 samplePointing)
       \<le> placardOpacity (fadePlacard 1600 samplePointing)
   \<and> placardOpacity (fadePlacard (100 + 1500) samplePointing) = 1
   \<and> placardFadeStartTime (fadePlacard 850 samplePointing) = Some 100
   \<and> placardOpacity (hidePlacard (fadePlacard 850 samplePointing)) = 0
   \<and> placardOpacity (enableRepositioning (fadePlacard 850 samplePointing)) = 0
   \<and> xrFrame (sampleTick 850 True 1 []) = Some (sampleFrame True 1 [])
   \<and> xrSession samplePointing \<noteq> None
   \<and> repositionEdge (sampleFrame True 1 []) samplePointing
   \<and> \<not> placardVisible (state_of (render (sampleTick 850 True 1 []) samplePointing))
   \<and> placardOpacity (state_of (render (sampleTick 850 True 1 []) samplePointing)) = 0"
proof -
  have h: "placardVisible samplePointing" "placardFadeStartTime samplePointing = Some 100"
    "(100 :: real) \<le> 850" "(850 :: real) \<le> 1600"
    by (simp_all add: samplePointing_eq placardVisible_def)
  have e: "easeOut (850 - 100) = 3 / 4"
    by (simp add: easeOut_def fadeInDuration_def)
  have edge: "xrFrame (sampleTick 850 True 1 []) = Some (sampleFrame True 1 [])"
    "xrSession samplePointing \<noteq> None"
    "repositionEdge (sampleFrame True 1 []) samplePointing"
    by (simp_all add: samplePointing_eq sample_defs repositionEdge_def buttonPressed_def)
  note T = C7_placard_fade[OF h, of "sampleTick 850 True 1 []" "sampleFrame True 1 []"]
  have a: "placardOpacity (fadePlacard 850 samplePointing) = 3 / 4"
    using T e by simp
  have b: "placardOpacity (fadePlacard 850 samplePointing)
       \<le> placardOpacity (fadePlacard 1600 samplePointing)"
    using T by blast
  have c: "placardOpacity (fadePlacard (100 + 1500) samplePointing) = 1"
    using T by (simp add: fadeInDuration_def)
  have d: "placardFadeStartTime (fadePlacard 850 samplePointing) = Some 100"
    using T by (simp add: fadeInDuration_def)
  have g: "placardOpacity (hidePlacard (fadePlacard 850 samplePointing)) = 0"
    "placardOpacity (enableRepositioning (fadePlacard 850 samplePointing)) = 0"
    using T by blast+
  have i: "\<not> placardVisible (state_of (render (sampleTick 850 True 1 []) samplePointing))"
    using T edge by blast
  have j: "placardOpacity (state_of (render (sampleTick 850 True 1 []) samplePointing)) = 0"
    using T i by presburger
  from h a b c d g edge i j show ?thesis
    by blast
qed

text \<open>
  C8. The controller calls \<^verbatim>\<open>play()\<close> at most once: over any sequence of events after
  construction there is at most one call, and once the audio is playing no later event
  adds a call. In particular a second select right after a select never starts playback
  again. A select that arrives before the clip is loaded makes no call and leaves the
  audio not playing, and nothing retries it: events other than select, such as the
  arrival of the clip and later frames, never call \<^verbatim>\<open>play()\<close>.
\<close>

theorem C8_audio_once:
  "plays (run evs (initial page flat)) \<le> 1
   \<and> (playing (run pre (initial page flat)) \<longrightarrow>
        plays (run evs (run pre (initial page flat))) = plays (run pre (initial page flat)))
   \<and> plays (step Select (step Select c)) = plays (step Select c)
   \<and> (\<not> audioLoaded c \<longrightarrow>
        plays (step Select c) = plays c \<and> playing (step Select c) = playing c)
   \<and> (Select \<notin> set quiet \<longrightarrow> plays (run quiet c) = plays c)"
proof -
  have "plays (run evs (initial page flat)) \<le> playBudget (run evs (initial page flat))"
    by (simp add: playBudget_def)
  also have "\<dots> \<le> playBudget (initial page flat)"
    by (intro playBudget_run audioInv_initial)
  also have "\<dots> = 1"
    by (simp add: playBudget_def initial_def plays_def playing_def)
  finally have a: "plays (run evs (initial page flat)) \<le> 1" .
  have b: "playing (run pre (initial page flat)) \<longrightarrow>
        plays (run evs (run pre (initial page flat))) = plays (run pre (initial page flat))"
  proof
    define c0 where "c0 = run pre (initial page flat)"
    assume "playing (run pre (initial page flat))"
    then have pl: "playing c0" by (simp add: c0_def)
    have inv: "audioInv c0"
      unfolding c0_def by (intro audioInv_run audioInv_initial)
    have "plays (run evs c0) \<le> playBudget (run evs c0)"
      by (simp add: playBudget_def)
    also have "\<dots> \<le> playBudget c0"
      using inv by (rule playBudget_run)
    also have "\<dots> = plays c0"
      using pl by (simp add: playBudget_def)
    finally have "plays (run evs c0) \<le> plays c0" .
    moreover have "plays c0 \<le> plays (run evs c0)"
      by (rule plays_mono_run)
    ultimately show "plays (run evs (run pre (initial page flat)))
        = plays (run pre (initial page flat))"
      by (simp add: c0_def)
  qed
  have d: "plays (step Select (step Select c)) = plays (step Select c)"
    using audio_step[of Select "step Select c"] select_twice[of c] by simp
  have e: "\<not> audioLoaded c \<longrightarrow>
        plays (step Select c) = plays c \<and> playing (step Select c) = playing c"
    using audio_step[of Select c] by simp
  have f: "Select \<notin> set quiet \<longrightarrow> plays (run quiet c) = plays c"
    by (simp add: plays_no_select)
  show ?thesis
    by (intro conjI) (fact a b d e f)+
qed

theorem C8_audio_once_witness:
  "playing (run sampleEvents (initial samplePage sampleFlat))
   \<and> plays (run sampleEvents (initial samplePage sampleFlat)) = 1
   \<and> plays (run [Render (sampleTick 850 True 1 [Some sampleHit]), Select]
              (run sampleEvents (initial samplePage sampleFlat))) = 1
   \<and> \<not> audioLoaded sampleSilent
   \<and> visible (reticle sampleSilent)
   \<and> plays (step Select sampleSilent) = 0
   \<and> \<not> playing (step Select sampleSilent)
   \<and> Select \<notin> set [AudioLoaded, Render (sampleTick 32 False 0 [])]
   \<and> plays (run [AudioLoaded, Render (sampleTick 32 False 0 [])]
              (step Select sampleSilent)) = 0"
proof -
  have h: "playing (run sampleEvents (initial samplePage sampleFlat))"
    "plays (run sampleEvents (initial samplePage sampleFlat)) = 1"
    by (simp_all add: samplePlaced_run samplePlaced_eq playing_def plays_def)
  have n: "Select \<notin> set [AudioLoaded, Render (sampleTick 32 False 0 [])]"
    by simp
  note T1 = C8_audio_once[where pre = sampleEvents and page = samplePage
      and flat = sampleFlat
      and evs = "[Render (sampleTick 850 True 1 [Some sampleHit]), Select]"
      and c = sampleSilent and quiet = "[]"]
  note T2 = C8_audio_once[where c = "step Select sampleSilent"
      and quiet = "[AudioLoaded, Render (sampleTick 32 False 0 [])]"
      and evs = "[]" and pre = "[]" and page = samplePage and flat = sampleFlat]
  have a: "plays (run [Render (sampleTick 850 True 1 [Some sampleHit]), Select]
              (run sampleEvents (initial samplePage sampleFlat))) = 1"
    using T1 h by simp
  have b: "plays (step Select sampleSilent) = 0" "\<not> playing (step Select sampleSilent)"
    using T1 sampleSilent_facts by simp_all
  have d: "plays (run [AudioLoaded, Render (sampleTick 32 False 0 [])]
              (step Select sampleSilent)) = 0"
    using T2 n b by simp
  show ?thesis
    by (intro conjI) (fact h a b d n sampleSilent_facts)+
qed





text \<open>
  C10. The loaded callback sets the audio to loop before it raises the loaded flag. In
  every state that the controller reaches after construction, audio that is playing is
  looping, and it is still playing after any further sequence of events: repositioning,
  a further select, the end of the session, a frame and a new start all leave it playing.
  The source contains no call that stops it.
\<close>

theorem C10_audio_persists:
  "(positionalAudio c \<noteq> None \<longrightarrow> looping (onAudioLoaded c) \<and> audioLoaded (onAudioLoaded c))
   \<and> (playing (run pre (initial page flat)) \<longrightarrow>
        looping (run pre (initial page flat))
        \<and> playing (run evs (run pre (initial page flat))))
   \<and> (playing c \<longrightarrow>
        playing (enableRepositioning c) \<and> playing (step Select c)
        \<and> playing (onSessionEnded c) \<and> playing (state_of (render t c))
        \<and> playing (fst (startXRSession r c)))"
proof -
  have a: "positionalAudio c \<noteq> None \<longrightarrow>
      looping (onAudioLoaded c) \<and> audioLoaded (onAudioLoaded c)"
    by (simp add: audio_onAudioLoaded)
  have b: "playing (run pre (initial page flat)) \<longrightarrow>
        looping (run pre (initial page flat))
        \<and> playing (run evs (run pre (initial page flat)))"
  proof
    assume pl: "playing (run pre (initial page flat))"
    have inv: "audioInv (run pre (initial page flat))"
      by (intro audioInv_run audioInv_initial)
    then have "looping (run pre (initial page flat))"
      using pl by (simp add: audioInv_def)
    moreover have "playing (run evs (run pre (initial page flat)))"
      using inv pl by (rule playing_run)
    ultimately show "looping (run pre (initial page flat))
        \<and> playing (run evs (run pre (initial page flat)))" by simp
  qed
  have d: "playing c \<longrightarrow>
        playing (enableRepositioning c) \<and> playing (step Select c)
        \<and> playing (onSessionEnded c) \<and> playing (state_of (render t c))
        \<and> playing (fst (startXRSession r c))"
    using audio_step[of Select c] by (simp add: playing_def)
  show ?thesis
    by (intro conjI) (fact a b d)+
qed

theorem C10_audio_persists_witness:
  "positionalAudio (initial samplePage sampleFlat) \<noteq> None
   \<and> looping (onAudioLoaded (initial samplePage sampleFlat))
   \<and> playing (run sampleEvents (initial samplePage sampleFlat))
   \<and> looping (run sampleEvents (initial samplePage sampleFlat))
   \<and> playing (run [Render (sampleTick 850 True 1 []), Select, AudioEnded, SessionEnd,
                    Start startGranted]
                (run sampleEvents (initial samplePage sampleFlat)))
   \<and> playing (onSessionEnded (run sampleEvents (initial samplePage sampleFlat)))
   \<and> playing (enableRepositioning (run sampleEvents (initial samplePage sampleFlat)))"
proof -
  have h: "positionalAudio (initial samplePage sampleFlat) \<noteq> None"
    by (simp add: initial_def)
  have p: "playing (run sampleEvents (initial samplePage sampleFlat))"
    by (simp add: samplePlaced_run samplePlaced_eq playing_def)
  note T1 = C10_audio_persists[where c = "initial samplePage sampleFlat"
      and pre = sampleEvents and page = samplePage and flat = sampleFlat
      and evs = "[Render (sampleTick 850 True 1 []), Select, AudioEnded, SessionEnd,
                    Start startGranted]"]
  note T2 = C10_audio_persists[where c = "run sampleEvents (initial samplePage sampleFlat)"
      and pre = "[]" and page = samplePage and flat = sampleFlat and evs = "[]"]
  have a: "looping (onAudioLoaded (initial samplePage sampleFlat))"
    using T1 h by blast
  have b: "looping (run sampleEvents (initial samplePage sampleFlat))"
    "playing (run [Render (sampleTick 850 True 1 []), Select, AudioEnded, SessionEnd,
                    Start startGranted]
                (run sampleEvents (initial samplePage sampleFlat)))"
    using T1 p by blast+
  have d: "playing (onSessionEnded (run sampleEvents (initial samplePage sampleFlat)))"
    "playing (enableRepositioning (run sampleEvents (initial samplePage sampleFlat)))"
    using T2 p by blast+
  show ?thesis
    by (intro conjI) (fact h p a b d)+
qed

end
